theory Spec2Isabelle
  imports Main "HOL-Library.Sublist" "HOL-Library.Multiset"
begin

section \<open>JavaScript strings\<close>

text \<open>
  A string is a list of code units. The model covers the code units below 256 (Latin-1),
  which is where every literal of the source lives.
\<close>

text \<open>
  String.prototype.replace with a string pattern: only the first occurrence of the
  pattern is replaced; a string without the pattern comes back unchanged. The
  replacements of the source hold no dollar sign, so they are inserted literally.
\<close>

fun replace :: "string \<Rightarrow> string \<Rightarrow> string \<Rightarrow> string" where
  "replace [] pat rep = (if pat = [] then rep else [])"
| "replace (c # cs) pat rep =
     (if prefix pat (c # cs) then rep @ drop (length pat) (c # cs)
      else c # replace cs pat rep)"

section \<open>src/utils/resolveForIpfs.ts\<close>

text \<open>
  \<^verbatim>\<open>window.location.hostname\<close> is read from the environment; the model takes it as the
  first argument.
\<close>

definition resolveIpfsUrl :: "string \<Rightarrow> string \<Rightarrow> string" where
  "resolveIpfsUrl hostname ipfsUri =
     (let cid = replace ipfsUri ''ipfs://'' ''''
      in if hostname = ''localhost''
         then ''http://127.0.0.1:8080/ipfs/'' @ cid
         else ''https://ipfs.io/ipfs/'' @ cid)"

section \<open>JavaScript exceptions, white space and BigInt\<close>

text \<open>An exception is a value: a fallible operation returns \<open>error + 'a\<close>.\<close>

datatype error = SyntaxError | RangeError | TypeError | Error string

text \<open>
  White space and line terminators among the code units below 256: TAB, LF, VT, FF, CR,
  SPACE and NBSP. String.prototype.trim and the BigInt parser strip the same set.
\<close>

definition isWhiteSpace :: "char \<Rightarrow> bool" where
  "isWhiteSpace c = (c \<in> set [CHR 0x09, CHR 0x0A, CHR 0x0B, CHR 0x0C, CHR 0x0D, CHR '' '', CHR 0xA0])"

definition trim :: "string \<Rightarrow> string" where
  "trim s = rev (dropWhile isWhiteSpace (rev (dropWhile isWhiteSpace s)))"

text \<open>String.prototype.padStart(targetLength, padString).\<close>

definition padStart :: "nat \<Rightarrow> string \<Rightarrow> string \<Rightarrow> string" where
  "padStart targetLength padString s =
     (if targetLength \<le> length s \<or> padString = [] then s
      else take (targetLength - length s)
             (concat (replicate (targetLength - length s) padString)) @ s)"

text \<open>
  StringToBigInt of ECMAScript: the trimmed text is empty (the value 0), or a binary, octal
  or hexadecimal literal with its prefix and no sign, or decimal digits with an optional
  sign. Anything else is not a BigInt (the constructor throws a SyntaxError).
\<close>

definition digitValue :: "char \<Rightarrow> nat option" where
  "digitValue = map_of
     [(CHR ''0'', 0), (CHR ''1'', 1), (CHR ''2'', 2), (CHR ''3'', 3), (CHR ''4'', 4),
      (CHR ''5'', 5), (CHR ''6'', 6), (CHR ''7'', 7), (CHR ''8'', 8), (CHR ''9'', 9),
      (CHR ''a'', 10), (CHR ''b'', 11), (CHR ''c'', 12), (CHR ''d'', 13), (CHR ''e'', 14),
      (CHR ''f'', 15), (CHR ''A'', 10), (CHR ''B'', 11), (CHR ''C'', 12), (CHR ''D'', 13),
      (CHR ''E'', 14), (CHR ''F'', 15)]"

fun digitsValue :: "nat \<Rightarrow> nat \<Rightarrow> string \<Rightarrow> nat option" where
  "digitsValue radix acc [] = Some acc"
| "digitsValue radix acc (c # cs) =
     (case digitValue c of
        None \<Rightarrow> None
      | Some d \<Rightarrow> if d < radix then digitsValue radix (acc * radix + d) cs else None)"

definition parseDigits :: "nat \<Rightarrow> string \<Rightarrow> nat option" where
  "parseDigits radix s = (if s = [] then None else digitsValue radix 0 s)"

definition parseSignedInteger :: "string \<Rightarrow> int option" where
  "parseSignedInteger t =
     (case t of
        c # ds \<Rightarrow>
          if c = CHR ''+'' then map_option int (parseDigits 10 ds)
          else if c = CHR ''-'' then map_option (\<lambda>n. - int n) (parseDigits 10 ds)
          else map_option int (parseDigits 10 t)
      | [] \<Rightarrow> None)"

definition StringToBigInt :: "string \<Rightarrow> int option" where
  "StringToBigInt str =
     (let t = trim str in
      if t = [] then Some 0
      else case t of
        c0 # c1 # ds \<Rightarrow>
          if c0 = CHR ''0'' \<and> (c1 = CHR ''x'' \<or> c1 = CHR ''X'') then map_option int (parseDigits 16 ds)
          else if c0 = CHR ''0'' \<and> (c1 = CHR ''o'' \<or> c1 = CHR ''O'') then map_option int (parseDigits 8 ds)
          else if c0 = CHR ''0'' \<and> (c1 = CHR ''b'' \<or> c1 = CHR ''B'') then map_option int (parseDigits 2 ds)
          else parseSignedInteger t
      | _ \<Rightarrow> parseSignedInteger t)"

definition BigInt :: "string \<Rightarrow> error + int" where
  "BigInt s = (case StringToBigInt s of None \<Rightarrow> Inl SyntaxError | Some n \<Rightarrow> Inr n)"

text \<open>
  BigInt division truncates towards zero and the remainder takes the sign of the
  dividend; a zero divisor throws a RangeError.
\<close>

definition bigint_divide :: "int \<Rightarrow> int \<Rightarrow> error + int" where
  "bigint_divide a b = (if b = 0 then Inl RangeError else Inr (sgn a * sgn b * (\<bar>a\<bar> div \<bar>b\<bar>)))"

definition bigint_remainder :: "int \<Rightarrow> int \<Rightarrow> error + int" where
  "bigint_remainder a b = (if b = 0 then Inl RangeError else Inr (sgn a * (\<bar>a\<bar> mod \<bar>b\<bar>)))"

text \<open>BigInt.prototype.toString(): the decimal numeral, with a minus sign when negative.\<close>

definition digitChar :: "nat \<Rightarrow> char" where
  "digitChar d = ''0123456789'' ! d"

fun digits_of_nat :: "nat \<Rightarrow> string" where
  "digits_of_nat n =
     (if n < 10 then [digitChar n] else digits_of_nat (n div 10) @ [digitChar (n mod 10)])"

declare digits_of_nat.simps [simp del]

definition bigint_toString :: "int \<Rightarrow> string" where
  "bigint_toString n = (if n < 0 then CHR ''-'' # digits_of_nat (nat (- n)) else digits_of_nat (nat n))"

section \<open>src/utils/formatPrice.ts\<close>

text \<open>
  \<^verbatim>\<open>fractionStr.replace(/0+$/, "")\<close>: the pattern matches the maximal run of zeros that
  ends the string, and the run is removed.
\<close>

definition stripTrailingZeros :: "string \<Rightarrow> string" where
  "stripTrailingZeros s = rev (dropWhile (\<lambda>c. c = CHR ''0'') (rev s))"

text \<open>
  The body of the try block. \<^verbatim>\<open>BigInt(10 ** 18)\<close> is the BigInt of the Number 10^18, which
  a double holds exactly.
\<close>

definition formatETHPrice_try :: "string \<Rightarrow> error + string" where
  "formatETHPrice_try priceStr =
     (case BigInt priceStr of
        Inl e \<Rightarrow> Inl e
      | Inr bigIntPrice \<Rightarrow>
          (case bigint_divide bigIntPrice (10 ^ 18) of
             Inl e \<Rightarrow> Inl e
           | Inr whole \<Rightarrow>
               (case bigint_remainder bigIntPrice (10 ^ 18) of
                  Inl e \<Rightarrow> Inl e
                | Inr fraction \<Rightarrow>
                    (let wholeStr = bigint_toString whole;
                         fractionStr = padStart 18 ''0'' (bigint_toString fraction);
                         trimmedFraction = stripTrailingZeros fractionStr
                     in Inr (if trimmedFraction \<noteq> []
                             then wholeStr @ ''.'' @ trimmedFraction @ '' ETH''
                             else wholeStr @ ''.0000 ETH'')))))"

text \<open>The function: the catch clause returns the argument for whatever was thrown.\<close>

definition formatETHPrice :: "string \<Rightarrow> string" where
  "formatETHPrice priceStr =
     (case formatETHPrice_try priceStr of Inl e \<Rightarrow> priceStr | Inr formatted \<Rightarrow> formatted)"


section \<open>Data fetched through the query hooks\<close>

text \<open>
  What wagmi's and TanStack Query's hooks hand to a component: the data when there is
  some, the flags, and the error (represented by its message). The hooks themselves are
  library code; every combination of the fields is a possible input.
\<close>

record 'a QueryResult =
  data :: "'a option"
  isLoading :: bool
  isSuccess :: bool
  isError :: bool
  error :: "string option"

section \<open>src/app/buy-record/[contractAddress]/page.tsx\<close>

text \<open>A field of the indexer's node is \<open>None\<close> when the node lacks it (undefined).\<close>

record RecordEmitData =
  artist :: "string option"
  name :: "string option"
  symbol :: "string option"

text \<open>The field \<open>supply'\<close> is the source's \<open>supply\<close>.\<close>

record ContractData =
  mintPrice :: "int option"
  supply' :: "int option"
  tokenCount :: "int option"
  previewImageUrl :: "string option"
  isLoading :: bool
  error :: "string option"
  isError :: bool

text \<open>
  useContractData: the four reads arrive together (allowFailure is off), as
  (mintPrice, supply, tokenCount, previewImageURI). An empty preview URI is falsy and
  leaves previewImageUrl undefined.
\<close>

definition useContractData ::
  "string \<Rightarrow> (int \<times> int \<times> int \<times> string) QueryResult \<Rightarrow> ContractData" where
  "useContractData hostname result =
     (case QueryResult.data result of
        None \<Rightarrow>
          \<lparr>mintPrice = None, supply' = None, tokenCount = None, previewImageUrl = None,
           isLoading = QueryResult.isLoading result, error = QueryResult.error result,
           isError = QueryResult.isError result\<rparr>
      | Some (p, s, n, previewImageURI) \<Rightarrow>
          \<lparr>mintPrice = Some p, supply' = Some s, tokenCount = Some n,
           previewImageUrl =
             (if previewImageURI \<noteq> [] then Some (resolveIpfsUrl hostname previewImageURI)
              else None),
           isLoading = QueryResult.isLoading result, error = QueryResult.error result,
           isError = QueryResult.isError result\<rparr>)"

text \<open>What the page renders below the text info (lines 223 to 255).\<close>

datatype MintSection =
    AllRecordsMinted
  | PleaseConnectAWallet
  | MintControl (buttonLabel: string) (buttonDisabled: bool) (priceText: string)
      (mintedText: string)

text \<open>
  The page: one of the three early returns, or the record view with the preview image
  (source, alt text, whether the "Image not available" overlay shows), the title, the
  artist and the mint section.
\<close>

datatype BuyRecordView =
    LoadingView
  | NoListingView
  | ContractDataErrorView "string option"
  | RecordView (imageSrc: string) (imageAlt: string) (imageOverlay: bool)
      (title: string) (byArtist: string) (mintSection: MintSection)

definition BuyRecordPage ::
  "string \<Rightarrow> bool \<Rightarrow> bool \<Rightarrow> bool \<Rightarrow> RecordEmitData QueryResult \<Rightarrow>
   (int \<times> int \<times> int \<times> string) QueryResult \<Rightarrow> BuyRecordView" where
  "BuyRecordPage hostname imageError isConnected isMintPending recordEmitQuery reads =
     (let contractData = useContractData hostname reads in
      if QueryResult.isLoading recordEmitQuery \<or> ContractData.isLoading contractData
      then LoadingView
      else
        (case QueryResult.data recordEmitQuery of
           None \<Rightarrow> NoListingView
         | Some recordEmitData \<Rightarrow>
             if RecordEmitData.name recordEmitData = None
                \<or> RecordEmitData.artist recordEmitData = None
                \<or> symbol recordEmitData = None
             then NoListingView
             else if ContractData.isError contractData
                \<or> mintPrice contractData = None \<or> supply' contractData = None
                \<or> tokenCount contractData = None \<or> previewImageUrl contractData = None
             then ContractDataErrorView (ContractData.error contractData)
             else
               (case (RecordEmitData.name recordEmitData, RecordEmitData.artist recordEmitData,
                      symbol recordEmitData, mintPrice contractData, supply' contractData,
                      tokenCount contractData, previewImageUrl contractData) of
                  (Some name', Some artist', Some symbol', Some mintPrice', Some supplyCap,
                   Some tokenCount', Some previewImageUrl') \<Rightarrow>
                    RecordView previewImageUrl' name' imageError name' artist'
                      (if supplyCap \<le> tokenCount' then AllRecordsMinted
                       else if \<not> isConnected then PleaseConnectAWallet
                       else
                         MintControl
                           (if isMintPending then ''Waiting for Signature...''
                            else ''Mint '' @ symbol')
                           (isMintPending \<or> supplyCap \<le> tokenCount')
                           (formatETHPrice (bigint_toString mintPrice'))
                           (bigint_toString tokenCount' @ '' / '' @
                            bigint_toString supplyCap @ '' minted''))
                | _ \<Rightarrow> ContractDataErrorView (ContractData.error contractData))))"

section \<open>String.prototype.toLowerCase, array reads\<close>

text \<open>
  Among the code units below 256 the upper-case letters are A to Z and the Latin-1
  capitals 0xC0 to 0xDE without the multiplication sign 0xD7; each is 32 below its
  lower-case form.
\<close>

definition toLowerCase_char :: "char \<Rightarrow> char" where
  "toLowerCase_char c =
     (let n = (of_char c :: nat)
      in if (65 \<le> n \<and> n \<le> 90) \<or> (192 \<le> n \<and> n \<le> 222 \<and> n \<noteq> 215) then char_of (n + 32)
         else c)"

definition toLowerCase :: "string \<Rightarrow> string" where
  "toLowerCase s = map toLowerCase_char s"


section \<open>The My Records view (src/unnamed/part_003)\<close>

text \<open>The field \<open>record'\<close> is the source's \<open>record\<close>, the deployed Record contract.\<close>

record DeployedRecord =
  record' :: string
  artist :: string
  name :: string
  contractAddress :: string

text \<open>An entry of sanitizedRecords, and an OwnedItem (the same fields and a token id).\<close>

record SanitizedRecord =
  contractAddress :: string
  name :: string
  artist :: string

record OwnedItem = SanitizedRecord +
  tokenId :: int

text \<open>What the view writes to the console.\<close>

datatype console_entry =
    InvalidRecordAddressWarning string
  | ReadFailureWarning string string

text \<open>
  viem's getAddress and isAddress are library code, not part of the repository: the
  model takes them as parameters. getAddress returns the checksummed address or throws.
\<close>

definition normalizeAddress :: "(string \<Rightarrow> error + string) \<Rightarrow> string option \<Rightarrow> string option" where
  "normalizeAddress getAddress raw =
     (case raw of
        None \<Rightarrow> None
      | Some r \<Rightarrow>
          if r = [] then None
          else
            (let t = trim r
             in if t = [] then None
                else (case getAddress t of Inl e \<Rightarrow> None | Inr checksummed \<Rightarrow> Some checksummed)))"

text \<open>The warning of the loop body for an entry without a usable address.\<close>

definition invalidRecordWarning :: "(string \<Rightarrow> bool) \<Rightarrow> DeployedRecord \<Rightarrow> console_entry list" where
  "invalidRecordWarning isAddress r =
     (if record' r \<noteq> [] \<and> \<not> isAddress (trim (record' r))
      then [InvalidRecordAddressWarning (record' r)] else [])"

fun sanitizedRecords_loop ::
  "(string \<Rightarrow> error + string) \<Rightarrow> (string \<Rightarrow> bool) \<Rightarrow> DeployedRecord list \<Rightarrow>
   SanitizedRecord list \<times> console_entry list \<Rightarrow> SanitizedRecord list \<times> console_entry list" where
  "sanitizedRecords_loop getAddress isAddress [] (list, console) = (list, console)"
| "sanitizedRecords_loop getAddress isAddress (r # rs) (list, console) =
     (case normalizeAddress getAddress (Some (record' r)) of
        None \<Rightarrow>
          sanitizedRecords_loop getAddress isAddress rs
            (list, console @ invalidRecordWarning isAddress r)
      | Some addr \<Rightarrow>
          if addr = []
          then sanitizedRecords_loop getAddress isAddress rs
                 (list, console @ invalidRecordWarning isAddress r)
          else sanitizedRecords_loop getAddress isAddress rs
                 (list @ [\<lparr>contractAddress = addr, name = DeployedRecord.name r,
                           artist = DeployedRecord.artist r\<rparr>], console))"

definition sanitizedRecords ::
  "(string \<Rightarrow> error + string) \<Rightarrow> (string \<Rightarrow> bool) \<Rightarrow> DeployedRecord list \<Rightarrow>
   SanitizedRecord list \<times> console_entry list" where
  "sanitizedRecords getAddress isAddress deployedRecords =
     sanitizedRecords_loop getAddress isAddress deployedRecords ([], [])"

text \<open>
  The batched read handed to useReadContracts: one tokensOfOwner call per sanitized
  record, enabled when an account is connected and the list is not empty.
\<close>

record ContractRead =
  address :: string
  functionName :: string
  args :: "string option list"

definition tokensOfOwnerReads ::
  "string option \<Rightarrow> SanitizedRecord list \<Rightarrow> ContractRead list \<times> bool" where
  "tokensOfOwnerReads userAddress sanitized =
     (map (\<lambda>r. \<lparr>address = SanitizedRecord.contractAddress r, functionName = ''tokensOfOwner'',
                 args = [userAddress]\<rparr>) sanitized,
      userAddress \<noteq> None \<and> userAddress \<noteq> Some [] \<and> 0 < length sanitized)"

text \<open>One result of the batch: the token ids, or the failure with its error.\<close>

datatype ReadResult = Success "int list option" | Failure string



text \<open>Step 5: one render item per owned token.\<close>

fun ownedItems :: "SanitizedRecord list \<Rightarrow> (string \<rightharpoonup> int list) \<Rightarrow> OwnedItem list" where
  "ownedItems [] ownedTokensByContract = []"
| "ownedItems (rec # rest) ownedTokensByContract =
     (case ownedTokensByContract (toLowerCase (SanitizedRecord.contractAddress rec)) of
        None \<Rightarrow> ownedItems rest ownedTokensByContract
      | Some tokenIds \<Rightarrow>
          if tokenIds = [] then ownedItems rest ownedTokensByContract
          else map (\<lambda>tokenId. \<lparr>contractAddress = SanitizedRecord.contractAddress rec,
                               name = SanitizedRecord.name rec,
                               artist = SanitizedRecord.artist rec, tokenId = tokenId\<rparr>) tokenIds
               @ ownedItems rest ownedTokensByContract)"

text \<open>
  What a collection view renders: the heading, the paragraphs that show and the grid
  of cards, each card with the props the view passes to RecordBox.
\<close>

record RecordBoxElement =
  key :: string
  variant :: "string option"
  contractAddress :: string
  name :: string
  artist :: string
  tokenId :: "int option"
  href :: "string option"

datatype Element =
    Heading string
  | LoadingText
  | ErrorLoadingRecords
  | FailedToLoad "string option"
  | NoRecordsOwnedText
  | Grid "RecordBoxElement list"

record MyRecordsState =
  deployedRecords :: "DeployedRecord list"
  isFetching :: bool
  fetchError :: "string option"
  ownedTokensByContract :: "string \<rightharpoonup> int list"

text \<open>
  Effect 1, once the request has settled: the nodes of the response (none when a level
  of the response is missing), or the message of what was thrown (if it has one).
  Nothing is fetched without an account, and nothing is stored after the cleanup ran.
\<close>

datatype 'a Settled = Rejected "string option" | Resolved 'a

definition deploymentsFetched ::
  "string option \<Rightarrow> bool \<Rightarrow> DeployedRecord list option Settled \<Rightarrow> MyRecordsState \<Rightarrow> MyRecordsState" where
  "deploymentsFetched userAddress canceled response st =
     (if userAddress = None \<or> userAddress = Some [] then st
      else if canceled then st\<lparr>isFetching := True, fetchError := None\<rparr>
      else
        (case response of
           Resolved nodes \<Rightarrow>
             st\<lparr>deployedRecords := (case nodes of None \<Rightarrow> [] | Some ns \<Rightarrow> ns),
                isFetching := False, fetchError := None\<rparr>
         | Rejected message \<Rightarrow>
             st\<lparr>isFetching := False,
                fetchError :=
                  Some (case message of None \<Rightarrow> ''Failed to fetch records'' | Some m \<Rightarrow> m)\<rparr>))"

definition ownedCard :: "OwnedItem \<Rightarrow> RecordBoxElement" where
  "ownedCard item =
     \<lparr>key = SanitizedRecord.contractAddress item @ ''-'' @ bigint_toString (OwnedItem.tokenId item),
      variant = Some ''owned'',
      contractAddress = SanitizedRecord.contractAddress item,
      name = SanitizedRecord.name item,
      artist = SanitizedRecord.artist item,
      tokenId = Some (OwnedItem.tokenId item),
      href = Some (''/owned-record/'' @ SanitizedRecord.contractAddress item @ ''/'' @
                   bigint_toString (OwnedItem.tokenId item))\<rparr>"

text \<open>
  The view, from the validators, the component's state and the batched read's flags.
  An empty fetchError is falsy.
\<close>

definition MyRecords ::
  "(string \<Rightarrow> error + string) \<Rightarrow> (string \<Rightarrow> bool) \<Rightarrow> MyRecordsState \<Rightarrow>
   ReadResult list QueryResult \<Rightarrow> Element list" where
  "MyRecords getAddress isAddress st batch =
     (let sanitized = fst (sanitizedRecords getAddress isAddress (deployedRecords st));
          items = ownedItems sanitized (ownedTokensByContract st);
          loading = (isFetching st \<or> QueryResult.isLoading batch);
          anyError = ((fetchError st \<noteq> None \<and> fetchError st \<noteq> Some []) \<or> QueryResult.isError batch);
          errorMsg = (case fetchError st of Some m \<Rightarrow> Some m | None \<Rightarrow> QueryResult.error batch)
      in [Heading ''Your Record Collection'']
         @ (if loading then [LoadingText] else [])
         @ (if anyError then [FailedToLoad errorMsg] else [])
         @ (if \<not> loading \<and> \<not> anyError \<and> length items = 0 then [NoRecordsOwnedText] else [])
         @ [Grid (map ownedCard items)])"

section \<open>The Store view (src/unnamed/part_002)\<close>

text \<open>
  The indexer's response, level by level; a level is \<open>None\<close> when the JSON lacks it.
  The Store's nodes carry more fields than it uses (symbol, txHash, blockNumber, txIndex).
\<close>

datatype Deployeds = Deployeds "DeployedRecord list option"
datatype ResponseData = ResponseData "Deployeds option"
datatype RecordQueryResponse = RecordQueryResponse "ResponseData option"

text \<open>
  \<^verbatim>\<open>data?.data?.allRecordDeployeds.nodes ?? []\<close>: the last step is not optional, so a
  response with data but without allRecordDeployeds throws a TypeError.
\<close>

definition Store_records :: "RecordQueryResponse option \<Rightarrow> error + DeployedRecord list" where
  "Store_records response =
     (case response of
        None \<Rightarrow> Inr []
      | Some (RecordQueryResponse None) \<Rightarrow> Inr []
      | Some (RecordQueryResponse (Some (ResponseData None))) \<Rightarrow> Inl TypeError
      | Some (RecordQueryResponse (Some (ResponseData (Some (Deployeds None))))) \<Rightarrow> Inr []
      | Some (RecordQueryResponse (Some (ResponseData (Some (Deployeds (Some nodes)))))) \<Rightarrow>
          Inr nodes)"

definition storeCard :: "DeployedRecord \<Rightarrow> RecordBoxElement" where
  "storeCard r =
     \<lparr>key = record' r, variant = None, contractAddress = record' r,
      name = DeployedRecord.name r, artist = DeployedRecord.artist r,
      tokenId = None, href = None\<rparr>"

definition Store :: "RecordQueryResponse QueryResult \<Rightarrow> error + Element list" where
  "Store query =
     (case Store_records (QueryResult.data query) of
        Inl e \<Rightarrow> Inl e
      | Inr records \<Rightarrow>
          Inr ([Heading ''Recent Releases'']
               @ (if QueryResult.isLoading query then [LoadingText] else [])
               @ (if QueryResult.error query \<noteq> None then [ErrorLoadingRecords] else [])
               @ [Grid (map storeCard records)]))"

text \<open>
  viem's getAddress and isAddress, as the library implements them. An address is well
  formed when it is 0x followed by forty hexadecimal digits. getAddress throws on a
  string that is not well formed and otherwise returns the EIP-55 form of the address:
  it does not check the letter case of what it is given. isAddress, strict by default,
  accepts a well-formed string that is all lower case or is its own EIP-55 form: this
  is the checksum validation. The EIP-55 form needs Keccak-256 and is a parameter,
  \<open>checksumAddress\<close>.
\<close>

definition isHexAddress :: "string \<Rightarrow> bool" where
  "isHexAddress t =
     (length t = 42 \<and> take 2 t = ''0x'' \<and> list_all (\<lambda>c. digitValue c \<noteq> None) (drop 2 t))"

definition viem_getAddress :: "(string \<Rightarrow> string) \<Rightarrow> string \<Rightarrow> error + string" where
  "viem_getAddress checksumAddress t =
     (if isHexAddress t then Inr (checksumAddress t) else Inl (Error ''InvalidAddressError''))"

definition viem_isAddress :: "(string \<Rightarrow> string) \<Rightarrow> string \<Rightarrow> bool" where
  "viem_isAddress checksumAddress t =
     (isHexAddress t \<and> (toLowerCase t = t \<or> checksumAddress t = t))"

text \<open>
  To run the model on concrete addresses: the EIP-55 form of two test vectors of EIP-55,
  whatever the letter case of the input (an all-capitals and an all-lower-case
  address). On any other string the function returns its argument, which is not its
  EIP-55 form in general; the closed theorems below use the two vectors only.
\<close>

definition eip55_vectors :: "string \<Rightarrow> string" where
  "eip55_vectors t =
     (if toLowerCase t = ''0x52908400098527886e0f7030069857d2e4169ee7''
      then ''0x52908400098527886E0F7030069857D2E4169EE7''
      else if toLowerCase t = ''0xde709f2102306220921060314715629080e2fb77''
      then ''0xde709f2102306220921060314715629080e2fb77''
      else t)"



text \<open>
  What the sanitizing loop does with a deployment, for any getAddress: it keeps the
  deployment when normalizeAddress gives it a (non-empty) address, and
  \<open>normalizedAddress\<close> is that address.
\<close>

definition keptBySanitizer :: "(string \<Rightarrow> error + string) \<Rightarrow> DeployedRecord \<Rightarrow> bool" where
  "keptBySanitizer getAddress r =
     (case normalizeAddress getAddress (Some (record' r)) of None \<Rightarrow> False | Some a \<Rightarrow> a \<noteq> [])"

definition normalizedAddress :: "(string \<Rightarrow> error + string) \<Rightarrow> DeployedRecord \<Rightarrow> string" where
  "normalizedAddress getAddress r =
     (case normalizeAddress getAddress (Some (record' r)) of None \<Rightarrow> [] | Some a \<Rightarrow> a)"


section \<open>The Owner page (src/unnamed/part_001)\<close>

text \<open>
  A song of the metadata document. The track number is \<open>None\<close> when the JSON lacks it
  (the comparator reads \<^verbatim>\<open>a.track ?? 0\<close>); track numbers are modelled as integers.
\<close>

record Song =
  track :: "int option"
  title :: string
  artist :: string
  duration :: "string option"
  audio :: string

text \<open>The metadata document (its unused tokenId field is left out).\<close>

record RecordMetadata =
  name :: string
  artist :: "string option"
  image :: "string option"
  description :: "string option"
  animation_url :: "string option"
  songs :: "Song list option"

definition trackNumber :: "Song \<Rightarrow> int" where
  "trackNumber song = (case Song.track song of None \<Rightarrow> 0 | Some t \<Rightarrow> t)"

definition compareTracks :: "Song \<Rightarrow> Song \<Rightarrow> int" where
  "compareTracks a b = trackNumber a - trackNumber b"

text \<open>
  Array.prototype.sort with a comparator. The sort is stable (ECMAScript 2019), and for
  a comparator that orders by a key there is one stable sorted arrangement of an array;
  the model computes it by insertion: an element goes before the first element it does
  not compare greater than.
\<close>

fun insertSorted :: "('a \<Rightarrow> 'a \<Rightarrow> int) \<Rightarrow> 'a \<Rightarrow> 'a list \<Rightarrow> 'a list" where
  "insertSorted cmp x [] = [x]"
| "insertSorted cmp x (y # ys) =
     (if cmp x y \<le> 0 then x # y # ys else y # insertSorted cmp x ys)"

definition Array_sort :: "('a \<Rightarrow> 'a \<Rightarrow> int) \<Rightarrow> 'a list \<Rightarrow> 'a list" where
  "Array_sort cmp xs = foldr (insertSorted cmp) xs []"

text \<open>
  One rendered track: its texts and the source of its audio control. The duration line
  shows for a duration that is present and not empty.
\<close>

record TrackElement =
  trackLabel :: "int option"
  titleText :: string
  artistText :: string
  durationText :: "string option"
  audioSrc :: string

datatype TracksSection = NoTracksFound | TrackList "TrackElement list"

definition trackElement :: "string \<Rightarrow> Song \<Rightarrow> TrackElement" where
  "trackElement hostname song =
     \<lparr>trackLabel = Song.track song, titleText = title song, artistText = Song.artist song,
      durationText =
        (case duration song of None \<Rightarrow> None | Some d \<Rightarrow> if d \<noteq> [] then Some d else None),
      audioSrc = resolveIpfsUrl hostname (audio song)\<rparr>"

text \<open>The Tracks section of the page (lines 162 to 199), from the fetched metadata.\<close>

definition OwnerRecordPage_tracks :: "string \<Rightarrow> RecordMetadata option \<Rightarrow> TracksSection" where
  "OwnerRecordPage_tracks hostname metadata =
     (case metadata of
        None \<Rightarrow> NoTracksFound
      | Some md \<Rightarrow>
          (case songs md of
             None \<Rightarrow> NoTracksFound
           | Some ss \<Rightarrow>
               if length ss = 0 then NoTracksFound
               else TrackList (map (trackElement hostname) (Array_sort compareTracks ss))))"

section \<open>The record card (src/unnamed/part_005)\<close>

text \<open>
  The token id of an owned card: a bigint, a number or a string. A number is modelled as
  an integer of magnitude below 10^21, so its conversion does not fail and String
  prints its decimal numeral; a string goes through the BigInt constructor and may
  throw.
\<close>

datatype TokenId = BigIntId int | NumberId int | StringId string

definition toBigIntId :: "TokenId \<Rightarrow> error + int" where
  "toBigIntId tid =
     (case tid of BigIntId n \<Rightarrow> Inr n | NumberId n \<Rightarrow> Inr n | StringId s \<Rightarrow> BigInt s)"

record CommonProps =
  contractAddress :: string
  name :: string
  artist :: string
  href :: "string option"
  className :: "string option"

datatype RecordBoxProps = Market CommonProps | Owned CommonProps TokenId

definition commonProps :: "RecordBoxProps \<Rightarrow> CommonProps" where
  "commonProps props = (case props of Market c \<Rightarrow> c | Owned c tid \<Rightarrow> c)"

text \<open>The on-chain read the hook asks for; building it converts the token id.\<close>

datatype ReadConfig = PreviewImageURI | TokenURI int

definition readConfig :: "RecordBoxProps \<Rightarrow> error + ReadConfig" where
  "readConfig props =
     (case props of
        Market c \<Rightarrow> Inr PreviewImageURI
      | Owned c tid \<Rightarrow> (case toBigIntId tid of Inl e \<Rightarrow> Inl e | Inr n \<Rightarrow> Inr (TokenURI n)))"

text \<open>The hook's state, as useState initialises it.\<close>

record ImageState =
  imageUrl :: "string option"
  isLoadingImage :: bool
  imageError :: "error option"

definition initialImageState :: ImageState where
  "initialImageState = \<lparr>imageUrl = None, isLoadingImage = False, imageError = None\<rparr>"

text \<open>
  What the metadata request does: fetch rejects (a TypeError), or a response arrives
  with its ok flag, its status and a body that is not JSON or is a JSON document with
  or without an image field.
\<close>

datatype MetadataBody = NotJson | Json "string option"

datatype FetchOutcome = FetchRejected | Response bool nat MetadataBody

text \<open>The try block of the effect: the image URL, or what was thrown.\<close>

definition resolveImage_try ::
  "string \<Rightarrow> RecordBoxProps \<Rightarrow> string \<Rightarrow> (string \<Rightarrow> FetchOutcome) \<Rightarrow> error + string" where
  "resolveImage_try hostname props onchainURI fetch =
     (case props of
        Market c \<Rightarrow> Inr (resolveIpfsUrl hostname onchainURI)
      | Owned c tid \<Rightarrow>
          (case fetch (resolveIpfsUrl hostname onchainURI) of
             FetchRejected \<Rightarrow> Inl TypeError
           | Response ok status body \<Rightarrow>
               if \<not> ok
               then Inl (Error (''Failed to fetch token metadata: '' @ digits_of_nat status))
               else
                 (case body of
                    NotJson \<Rightarrow> Inl SyntaxError
                  | Json None \<Rightarrow> Inl (Error ''No 'image' field in token metadata'')
                  | Json (Some rawImage) \<Rightarrow>
                      if rawImage = [] then Inl (Error ''No 'image' field in token metadata'')
                      else Inr (resolveIpfsUrl hostname rawImage))))"

text \<open>
  The effect, run to its end. It does nothing without an on-chain URI or while the read
  is loading. Otherwise it marks the image as loading and, unless the cleanup ran while
  the request was awaited (\<open>cancelled\<close>; the market variant awaits nothing), stores the
  image URL or the error and clears the loading mark.
\<close>

definition imageEffect ::
  "string \<Rightarrow> RecordBoxProps \<Rightarrow> string QueryResult \<Rightarrow> (string \<Rightarrow> FetchOutcome) \<Rightarrow> bool \<Rightarrow>
   ImageState \<Rightarrow> ImageState" where
  "imageEffect hostname props read fetch cancelled st =
     (case QueryResult.data read of
        None \<Rightarrow> st
      | Some onchainURI \<Rightarrow>
          if onchainURI = [] \<or> QueryResult.isLoading read then st
          else
            (let started = st\<lparr>isLoadingImage := True, imageError := None\<rparr>;
                 stopped = (case props of Market c \<Rightarrow> False | Owned c tid \<Rightarrow> cancelled)
             in if stopped then started
                else
                  (case resolveImage_try hostname props onchainURI fetch of
                     Inr resolved \<Rightarrow>
                       started\<lparr>imageUrl := Some resolved, isLoadingImage := False\<rparr>
                   | Inl e \<Rightarrow>
                       started\<lparr>imageError := Some e, imageUrl := None,
                               isLoadingImage := False\<rparr>)))"

text \<open>What useRecordImage returns; the read's error comes first.\<close>

record RecordImage =
  imageUrl :: "string option"
  isLoading :: bool
  error :: "error option"

definition useRecordImage ::
  "RecordBoxProps \<Rightarrow> string QueryResult \<Rightarrow> ImageState \<Rightarrow> error + RecordImage" where
  "useRecordImage props read st =
     (case readConfig props of
        Inl e \<Rightarrow> Inl e
      | Inr config \<Rightarrow>
          Inr \<lparr>RecordImage.imageUrl = ImageState.imageUrl st,
               RecordImage.isLoading = (QueryResult.isLoading read \<or> isLoadingImage st),
               RecordImage.error =
                 (case QueryResult.error read of
                    Some message \<Rightarrow> Some (Error message)
                  | None \<Rightarrow> imageError st)\<rparr>)"

definition tokenIdStr :: "TokenId \<Rightarrow> string" where
  "tokenIdStr tid =
     (case tid of BigIntId n \<Rightarrow> bigint_toString n | NumberId n \<Rightarrow> bigint_toString n
      | StringId s \<Rightarrow> s)"

definition defaultHref :: "RecordBoxProps \<Rightarrow> string" where
  "defaultHref props =
     (case CommonProps.href (commonProps props) of
        Some h \<Rightarrow>
          if h \<noteq> [] then h
          else (case props of
                  Market c \<Rightarrow> ''/buy-record/'' @ CommonProps.contractAddress c
                | Owned c tid \<Rightarrow>
                    ''/owner/'' @ CommonProps.contractAddress c @ ''/'' @ tokenIdStr tid)
      | None \<Rightarrow>
          (case props of
             Market c \<Rightarrow> ''/buy-record/'' @ CommonProps.contractAddress c
           | Owned c tid \<Rightarrow>
               ''/owner/'' @ CommonProps.contractAddress c @ ''/'' @ tokenIdStr tid))"

text \<open>The card: the link, the image area and the two lines of text.\<close>

datatype ImageView = LoadingImage | PlaceholderImage | CoverImage string string

record RecordBoxView =
  linkHref :: string
  linkClassName :: string
  imageView :: ImageView
  nameText :: string
  artistText :: string

definition RecordBox ::
  "RecordBoxProps \<Rightarrow> string QueryResult \<Rightarrow> ImageState \<Rightarrow> error + RecordBoxView" where
  "RecordBox props read st =
     (case useRecordImage props read st of
        Inl e \<Rightarrow> Inl e
      | Inr hook \<Rightarrow>
          (let showFallback =
                 (RecordImage.error hook \<noteq> None \<or> RecordImage.imageUrl hook = None
                  \<or> RecordImage.imageUrl hook = Some [])
           in Inr \<lparr>linkHref = defaultHref props,
                   linkClassName =
                     (case className (commonProps props) of None \<Rightarrow> ''block'' | Some c \<Rightarrow> c),
                   imageView =
                     (if RecordImage.isLoading hook then LoadingImage
                      else if showFallback then PlaceholderImage
                      else (case RecordImage.imageUrl hook of
                              Some url \<Rightarrow> CoverImage url (CommonProps.name (commonProps props))
                            | None \<Rightarrow> PlaceholderImage)),
                   nameText = CommonProps.name (commonProps props),
                   artistText = CommonProps.artist (commonProps props)\<rparr>))"

text \<open>
  The failures of the image resolution that the specification lists for the metadata
  request: the fetch fails, or the document has no usable image field.
\<close>

definition metadataFails :: "FetchOutcome \<Rightarrow> bool" where
  "metadataFails outcome =
     (case outcome of
        FetchRejected \<Rightarrow> True
      | Response ok status body \<Rightarrow>
          \<not> ok \<or> body = NotJson \<or> body = Json None \<or> body = Json (Some []))"

section \<open>Facts about replace\<close>

lemma replace_at_head: "replace (pat @ s) pat rep = rep @ s"
proof (cases "pat @ s")
  case Nil
  then show ?thesis by simp
next
  case (Cons c cs)
  have "prefix pat (pat @ s)" by simp
  with Cons have "replace (pat @ s) pat rep = rep @ drop (length pat) (pat @ s)"
    by simp
  then show ?thesis by simp
qed

lemma replace_absent: "\<not> sublist pat s \<Longrightarrow> replace s pat rep = s"
proof (induction s)
  case Nil
  then show ?case by auto
next
  case (Cons c cs)
  from Cons.prems have np: "\<not> prefix pat (c # cs)"
    using prefix_imp_sublist by blast
  from Cons.prems have "\<not> sublist pat cs"
    by (meson sublist_Cons_right)
  with Cons.IH np show ?case by simp
qed

lemma replace_first_occurrence:
  "\<forall>i<length a. \<not> prefix pat (drop i (a @ pat @ b)) \<Longrightarrow>
   replace (a @ pat @ b) pat rep = a @ rep @ b"
proof (induction a)
  case Nil
  then show ?case by (simp add: replace_at_head)
next
  case (Cons c cs)
  from Cons.prems have np: "\<not> prefix pat (c # cs @ pat @ b)"
    by (metis append_Cons drop0 length_greater_0_conv list.distinct(1))
  have "\<forall>i<length cs. \<not> prefix pat (drop i (cs @ pat @ b))"
  proof (intro allI impI)
    fix i assume "i < length cs"
    then have "Suc i < length (c # cs)" by simp
    with Cons.prems have "\<not> prefix pat (drop (Suc i) ((c # cs) @ pat @ b))" by blast
    then show "\<not> prefix pat (drop i (cs @ pat @ b))" by simp
  qed
  with Cons.IH have "replace (cs @ pat @ b) pat rep = cs @ rep @ b" by blast
  with np show ?case by simp
qed

section \<open>The IPFS resolver\<close>

text \<open>
  C3. For every string X, the resolver maps the content-addressed URI made of the marker
  followed by X to the gateway prefix followed by X: X is a suffix of the result, the
  result starts with the local gateway (http, 127.0.0.1:8080) exactly when the page's
  hostname is localhost, and with the public gateway (https, ipfs.io) exactly when it
  is not. The function is a total, pure function of the hostname and the URI: it has
  no error result.
\<close>

theorem resolveIpfsUrl_ipfs_scheme:
  "resolveIpfsUrl hostname (''ipfs://'' @ X) =
     (if hostname = ''localhost'' then ''http://127.0.0.1:8080/ipfs/''
      else ''https://ipfs.io/ipfs/'') @ X
   \<and> suffix X (resolveIpfsUrl hostname (''ipfs://'' @ X))
   \<and> (prefix ''http://127.0.0.1:8080/'' (resolveIpfsUrl hostname (''ipfs://'' @ X))
        = (hostname = ''localhost''))
   \<and> (prefix ''https://ipfs.io/'' (resolveIpfsUrl hostname (''ipfs://'' @ X))
        = (hostname \<noteq> ''localhost''))"
proof -
  have r: "replace (''ipfs://'' @ X) ''ipfs://'' '''' = X"
    using replace_at_head [of "''ipfs://''" X "''''"] by simp
  show ?thesis
    unfolding resolveIpfsUrl_def Let_def r
    by (simp add: suffix_def)
qed

theorem resolveIpfsUrl_ipfs_scheme_witness:
  "resolveIpfsUrl ''localhost'' ''ipfs://QmCover/1.json'' = ''http://127.0.0.1:8080/ipfs/QmCover/1.json''
   \<and> resolveIpfsUrl ''records.example'' ''ipfs://QmCover/1.json'' = ''https://ipfs.io/ipfs/QmCover/1.json''"
  using resolveIpfsUrl_ipfs_scheme [of "''localhost''" "''QmCover/1.json''"]
    resolveIpfsUrl_ipfs_scheme [of "''records.example''" "''QmCover/1.json''"]
  by simp

text \<open>
  C10. A string that does not contain the marker anywhere (an ordinary http or https
  URL, for one) is not passed through: the result is the selected gateway prefix
  followed by the whole input. When the input contains the marker, only its first
  occurrence is removed, wherever it stands: if the input is a, the marker, b, and no
  occurrence of the marker starts inside a, the result is the gateway prefix followed
  by a and b, with every later occurrence kept in b.
\<close>

theorem resolveIpfsUrl_marker_handling:
  "(\<not> sublist ''ipfs://'' s \<longrightarrow>
      resolveIpfsUrl hostname s =
        (if hostname = ''localhost'' then ''http://127.0.0.1:8080/ipfs/''
         else ''https://ipfs.io/ipfs/'') @ s)
   \<and> ((\<forall>i<length a. \<not> prefix ''ipfs://'' (drop i (a @ ''ipfs://'' @ b))) \<longrightarrow>
      resolveIpfsUrl hostname (a @ ''ipfs://'' @ b) =
        (if hostname = ''localhost'' then ''http://127.0.0.1:8080/ipfs/''
         else ''https://ipfs.io/ipfs/'') @ a @ b)"
proof (intro conjI impI)
  assume "\<not> sublist ''ipfs://'' s"
  then have "replace s ''ipfs://'' '''' = s" by (rule replace_absent)
  then show "resolveIpfsUrl hostname s =
        (if hostname = ''localhost'' then ''http://127.0.0.1:8080/ipfs/''
         else ''https://ipfs.io/ipfs/'') @ s"
    unfolding resolveIpfsUrl_def Let_def by simp
next
  assume "\<forall>i<length a. \<not> prefix ''ipfs://'' (drop i (a @ ''ipfs://'' @ b))"
  then have "replace (a @ ''ipfs://'' @ b) ''ipfs://'' '''' = a @ '''' @ b"
    by (rule replace_first_occurrence)
  then show "resolveIpfsUrl hostname (a @ ''ipfs://'' @ b) =
        (if hostname = ''localhost'' then ''http://127.0.0.1:8080/ipfs/''
         else ''https://ipfs.io/ipfs/'') @ a @ b"
    unfolding resolveIpfsUrl_def Let_def by simp
qed

theorem resolveIpfsUrl_marker_handling_witness:
  "\<not> sublist ''ipfs://'' ''https://cdn.example/a.png''
   \<and> resolveIpfsUrl ''localhost'' ''https://cdn.example/a.png''
       = ''http://127.0.0.1:8080/ipfs/https://cdn.example/a.png''
   \<and> resolveIpfsUrl ''records.example'' ''a/ipfs://b/ipfs://c''
       = ''https://ipfs.io/ipfs/a/b/ipfs://c''"
proof -
  have a: "\<not> sublist ''ipfs://'' ''https://cdn.example/a.png''"
    by (simp add: sublist_Cons_right)
  have b: "\<forall>i<length ''a/''. \<not> prefix ''ipfs://'' (drop i (''a/'' @ ''ipfs://'' @ ''b/ipfs://c''))"
    by (simp add: less_Suc_eq numeral_2_eq_2)
  from resolveIpfsUrl_marker_handling
         [of "''https://cdn.example/a.png''" "''localhost''" "''a/''" "''b/ipfs://c''"] a
  have c: "resolveIpfsUrl ''localhost'' ''https://cdn.example/a.png''
       = ''http://127.0.0.1:8080/ipfs/https://cdn.example/a.png''"
    by simp
  from resolveIpfsUrl_marker_handling
         [of "''x''" "''records.example''" "''a/''" "''b/ipfs://c''"] b
  have d: "resolveIpfsUrl ''records.example'' ''a/ipfs://b/ipfs://c''
       = ''https://ipfs.io/ipfs/a/b/ipfs://c''"
    by simp
  from a c d show ?thesis by simp
qed

section \<open>The price formatter\<close>

lemma replicate_numeral_unfold: "replicate (numeral k) x = x # replicate (pred_numeral k) x"
  by (simp add: numeral_eq_Suc)

lemmas fmt_eval = formatETHPrice_def formatETHPrice_try_def BigInt_def StringToBigInt_def trim_def
  isWhiteSpace_def parseSignedInteger_def parseDigits_def digitValue_def bigint_divide_def
  bigint_remainder_def bigint_toString_def digits_of_nat.simps digitChar_def padStart_def
  stripTrailingZeros_def Let_def replicate_numeral_unfold

lemma digit_cases:
  "d < 10 \<Longrightarrow> d = 0 \<or> d = 1 \<or> d = 2 \<or> d = 3 \<or> d = 4 \<or> d = 5 \<or> d = 6 \<or> d = 7 \<or> d = 8 \<or> d = (9::nat)"
  by (simp add: numeral_eq_Suc less_Suc_eq)

lemma digitValue_digitChar: "d < 10 \<Longrightarrow> digitValue (digitChar d) = Some d"
proof -
  assume "d < 10"
  then have "d = 0 \<or> d = 1 \<or> d = 2 \<or> d = 3 \<or> d = 4 \<or> d = 5 \<or> d = 6 \<or> d = 7
      \<or> d = 8 \<or> d = 9"
    by (rule digit_cases)
  then show ?thesis
    by (elim disjE) (simp_all add: digitValue_def digitChar_def)
qed

lemma digitChar_zero_iff: "d < 10 \<Longrightarrow> (digitChar d = CHR ''0'') = (d = 0)"
proof -
  assume d: "d < 10"
  have z: "digitValue (CHR ''0'') = Some 0" by (simp add: digitValue_def)
  show ?thesis
  proof
    assume "digitChar d = CHR ''0''"
    with digitValue_digitChar [OF d] z show "d = 0" by simp
  next
    assume "d = 0"
    then show "digitChar d = CHR ''0''" by (simp add: digitChar_def)
  qed
qed

lemma digitsValue_append:
  "digitsValue radix acc (xs @ ys) =
     (case digitsValue radix acc xs of None \<Rightarrow> None | Some v \<Rightarrow> digitsValue radix v ys)"
  by (induction xs arbitrary: acc) (auto split: option.splits)

lemma digitsValue_digits_of_nat: "digitsValue 10 0 (digits_of_nat m) = Some m"
proof (induction m rule: digits_of_nat.induct)
  case (1 n)
  show ?case
  proof (cases "n < 10")
    case True
    then show ?thesis
      by (simp add: digits_of_nat.simps [of n] digitValue_digitChar)
  next
    case False
    with "1" have ih: "digitsValue 10 0 (digits_of_nat (n div 10)) = Some (n div 10)" by simp
    have "n mod 10 < 10" by simp
    then have dv: "digitValue (digitChar (n mod 10)) = Some (n mod 10)"
      by (rule digitValue_digitChar)
    from False have "digits_of_nat n = digits_of_nat (n div 10) @ [digitChar (n mod 10)]"
      by (simp add: digits_of_nat.simps [of n])
    then show ?thesis
      by (simp add: digitsValue_append ih dv)
  qed
qed

lemma digits_of_nat_nonempty: "digits_of_nat m \<noteq> []"
  by (subst digits_of_nat.simps) simp

lemma parseDigits_digits_of_nat: "parseDigits 10 (digits_of_nat m) = Some m"
  by (simp add: parseDigits_def digits_of_nat_nonempty digitsValue_digits_of_nat)

lemma digits_of_nat_zero_only: "digits_of_nat m = ''0'' \<Longrightarrow> m = 0"
proof -
  assume "digits_of_nat m = ''0''"
  then have "digitsValue 10 0 (digits_of_nat m) = digitsValue 10 0 ''0''" by simp
  then show "m = 0"
    by (simp add: digitsValue_digits_of_nat digitValue_def)
qed

lemma digits_of_nat_canonical:
  "digits_of_nat m = ''0'' \<or> hd (digits_of_nat m) \<noteq> CHR ''0''"
proof (induction m rule: digits_of_nat.induct)
  case (1 n)
  show ?case
  proof (cases "n < 10")
    case True
    then have "digits_of_nat n = [digitChar n]"
      by (simp add: digits_of_nat.simps [of n])
    with True show ?thesis
      by (cases "n = 0") (simp_all add: digitChar_zero_iff)
  next
    case False
    then have ne: "n div 10 \<noteq> 0" by simp
    from False "1" have "digits_of_nat (n div 10) = ''0'' \<or> hd (digits_of_nat (n div 10)) \<noteq> CHR ''0''"
      by simp
    with ne have h: "hd (digits_of_nat (n div 10)) \<noteq> CHR ''0''"
      by (auto dest: digits_of_nat_zero_only)
    from False have "digits_of_nat n = digits_of_nat (n div 10) @ [digitChar (n mod 10)]"
      by (simp add: digits_of_nat.simps [of n])
    with h show ?thesis
      by (simp add: digits_of_nat_nonempty)
  qed
qed

lemma length_digits_of_nat: "m < 10 ^ k \<Longrightarrow> 0 < k \<Longrightarrow> length (digits_of_nat m) \<le> k"
proof (induction m arbitrary: k rule: digits_of_nat.induct)
  case (1 n)
  show ?case
  proof (cases "n < 10")
    case True
    with "1.prems" show ?thesis
      by (simp add: digits_of_nat.simps [of n])
  next
    case False
    from "1.prems" obtain j where k: "k = Suc j" by (cases k) auto
    have "0 < j"
    proof (rule ccontr)
      assume "\<not> 0 < j"
      with k "1.prems" False show False by simp
    qed
    from "1.prems" k have "n div 10 < 10 ^ j"
      by (simp add: less_mult_imp_div_less mult.commute)
    with "1.IH" False \<open>0 < j\<close> have "length (digits_of_nat (n div 10)) \<le> j" by simp
    moreover from False have "digits_of_nat n = digits_of_nat (n div 10) @ [digitChar (n mod 10)]"
      by (simp add: digits_of_nat.simps [of n])
    ultimately show ?thesis using k by simp
  qed
qed

lemma padStart_single: "padStart k [c] s = replicate (k - length s) c @ s"
proof -
  have "concat (replicate j [c]) = replicate j c" for j
    by (induction j) auto
  then show ?thesis
    by (simp add: padStart_def)
qed

lemma digitsValue_zeros: "digitsValue 10 0 (replicate j (CHR ''0'')) = Some 0"
  by (induction j) (auto simp: digitValue_def)

lemma digitsValue_leading_zeros:
  "digitsValue 10 0 (replicate j (CHR ''0'') @ ds) = digitsValue 10 0 ds"
  by (simp add: digitsValue_append digitsValue_zeros)

lemma takeWhile_eq_replicate:
  "takeWhile (\<lambda>c. c = a) xs = replicate (length (takeWhile (\<lambda>c. c = a) xs)) a"
  by (induction xs) auto

lemma stripTrailingZeros_decomp:
  "s = stripTrailingZeros s @ replicate (length s - length (stripTrailingZeros s)) (CHR ''0'')"
proof -
  let ?P = "\<lambda>c. c = CHR ''0''"
  let ?t = "takeWhile ?P (rev s)"
  have "rev s = ?t @ dropWhile ?P (rev s)" by simp
  then have "s = rev (dropWhile ?P (rev s)) @ rev ?t"
    by (metis rev_append rev_rev_ident)
  moreover have "rev ?t = replicate (length ?t) (CHR ''0'')"
    by (metis takeWhile_eq_replicate rev_replicate)
  ultimately have e: "s = stripTrailingZeros s @ replicate (length ?t) (CHR ''0'')"
    by (simp add: stripTrailingZeros_def)
  then have "length s = length (stripTrailingZeros s) + length ?t"
    by (metis length_append length_replicate)
  then have "length ?t = length s - length (stripTrailingZeros s)" by simp
  with e show ?thesis by simp
qed

lemma stripTrailingZeros_last:
  "stripTrailingZeros s = [] \<or> last (stripTrailingZeros s) \<noteq> CHR ''0''"
proof (cases "stripTrailingZeros s = []")
  case True
  then show ?thesis by simp
next
  case False
  let ?d = "dropWhile (\<lambda>c. c = CHR ''0'') (rev s)"
  from False have ne: "?d \<noteq> []" by (simp add: stripTrailingZeros_def)
  then have "hd ?d \<noteq> CHR ''0''" using hd_dropWhile [of "\<lambda>c. c = CHR ''0''" "rev s"] by simp
  moreover have "last (stripTrailingZeros s) = hd ?d"
    using ne by (simp add: stripTrailingZeros_def last_rev)
  ultimately show ?thesis by simp
qed


lemma bigint_divide_nonneg:
  "0 \<le> a \<Longrightarrow> 0 < b \<Longrightarrow> bigint_divide a b = Inr (a div b)"
  by (cases "a = 0") (simp_all add: bigint_divide_def)

lemma bigint_remainder_nonneg:
  "0 \<le> a \<Longrightarrow> 0 < b \<Longrightarrow> bigint_remainder a b = Inr (a mod b)"
  by (cases "a = 0") (simp_all add: bigint_remainder_def)

lemma bigint_toString_nonneg: "0 \<le> a \<Longrightarrow> bigint_toString a = digits_of_nat (nat a)"
  by (simp add: bigint_toString_def)

lemma formatETHPrice_try_parsed:
  assumes "StringToBigInt s = Some n" and "0 \<le> n"
  shows "formatETHPrice_try s =
     Inr (let f = stripTrailingZeros (padStart 18 ''0'' (bigint_toString (n mod 10 ^ 18)))
          in if f \<noteq> [] then bigint_toString (n div 10 ^ 18) @ ''.'' @ f @ '' ETH''
             else bigint_toString (n div 10 ^ 18) @ ''.0000 ETH'')"
  using assms
  by (simp add: formatETHPrice_try_def BigInt_def bigint_divide_nonneg bigint_remainder_nonneg Let_def)

lemma formatETHPrice_try_unparsed:
  "StringToBigInt s = None \<Longrightarrow> formatETHPrice_try s = Inl SyntaxError"
  by (simp add: formatETHPrice_try_def BigInt_def)

lemma formatETHPrice_try_Inl_iff:
  "(\<exists>e. formatETHPrice_try s = Inl e) = (StringToBigInt s = None)"
proof (cases "StringToBigInt s")
  case None
  then show ?thesis by (simp add: formatETHPrice_try_unparsed)
next
  case (Some n)
  have "bigint_divide n (10 ^ 18) = Inr (sgn n * sgn (10 ^ 18) * (\<bar>n\<bar> div \<bar>10 ^ 18\<bar>))"
    by (simp add: bigint_divide_def)
  moreover have "bigint_remainder n (10 ^ 18) = Inr (sgn n * (\<bar>n\<bar> mod \<bar>10 ^ 18\<bar>))"
    by (simp add: bigint_remainder_def)
  ultimately have "\<exists>r. formatETHPrice_try s = Inr r"
    using Some by (simp add: formatETHPrice_try_def BigInt_def Let_def)
  with Some show ?thesis by auto
qed

lemma fraction_padded:
  assumes "r < 10 ^ 18"
  shows "length (padStart 18 ''0'' (digits_of_nat r)) = 18"
    and "parseDigits 10 (padStart 18 ''0'' (digits_of_nat r)) = Some r"
proof -
  from assms have le: "length (digits_of_nat r) \<le> 18"
    by (rule length_digits_of_nat) simp
  have p: "padStart 18 ''0'' (digits_of_nat r) =
      replicate (18 - length (digits_of_nat r)) (CHR ''0'') @ digits_of_nat r"
    by (rule padStart_single)
  from le show "length (padStart 18 ''0'' (digits_of_nat r)) = 18"
    by (simp add: p)
  show "parseDigits 10 (padStart 18 ''0'' (digits_of_nat r)) = Some r"
    by (simp add: p parseDigits_def digits_of_nat_nonempty digitsValue_leading_zeros
        digitsValue_digits_of_nat)
qed

lemma all_zero_value:
  assumes "parseDigits 10 (replicate k (CHR ''0'')) = Some r"
  shows "r = 0"
  using assms by (simp add: parseDigits_def digitsValue_zeros split: if_splits)

lemma decimal_digit_cases:
  "c \<in> set ''0123456789'' \<Longrightarrow>
   c = CHR ''0'' \<or> c = CHR ''1'' \<or> c = CHR ''2'' \<or> c = CHR ''3'' \<or> c = CHR ''4''
   \<or> c = CHR ''5'' \<or> c = CHR ''6'' \<or> c = CHR ''7'' \<or> c = CHR ''8'' \<or> c = CHR ''9''"
  by simp

lemma decimal_digit_value:
  assumes "c \<in> set ''0123456789''"
  shows "\<exists>d<10. digitValue c = Some d"
  using decimal_digit_cases [OF assms]
  by (elim disjE) (simp_all add: digitValue_def)

lemma decimal_digit_plain:
  assumes "c \<in> set ''0123456789''"
  shows "\<not> isWhiteSpace c" and "c \<notin> set ''+-xXoObB''"
  using decimal_digit_cases [OF assms]
  by (elim disjE; simp add: isWhiteSpace_def)+

lemma digitsValue_decimal:
  "set s \<subseteq> set ''0123456789'' \<Longrightarrow> \<exists>n. digitsValue 10 acc s = Some n"
proof (induction s arbitrary: acc)
  case Nil
  then show ?case by simp
next
  case (Cons c cs)
  then have "c \<in> set ''0123456789''" by simp
  then obtain d where d: "d < 10" "digitValue c = Some d"
    using decimal_digit_value by blast
  from Cons.prems have "set cs \<subseteq> set ''0123456789''" by simp
  from Cons.IH [OF this] obtain n where "digitsValue 10 (acc * 10 + d) cs = Some n"
    by blast
  with d show ?case by simp
qed

lemma trim_decimal:
  assumes "set s \<subseteq> set ''0123456789''"
  shows "trim s = s"
proof (cases s)
  case Nil
  then show ?thesis by (simp add: trim_def)
next
  case (Cons c cs)
  with assms have h: "\<not> isWhiteSpace (hd s)"
    using decimal_digit_plain(1) [of c] by simp
  from Cons have ne: "s \<noteq> []" by simp
  then have "last s \<in> set s" by simp
  with assms have l: "\<not> isWhiteSpace (last s)"
    using decimal_digit_plain(1) by blast
  from h ne have a: "dropWhile isWhiteSpace s = s"
    by (cases s) auto
  from l ne have "\<not> isWhiteSpace (hd (rev s))"
    by (simp add: hd_rev)
  with ne have "dropWhile isWhiteSpace (rev s) = rev s"
    by (cases "rev s") auto
  with a show ?thesis by (simp add: trim_def)
qed

lemma StringToBigInt_decimal:
  assumes "s \<noteq> []" and "set s \<subseteq> set ''0123456789''"
  shows "\<exists>n. StringToBigInt s = Some (int n) \<and> parseDigits 10 s = Some n"
proof -
  from digitsValue_decimal [OF assms(2)] obtain n where n: "digitsValue 10 0 s = Some n"
    by blast
  with assms(1) have p: "parseDigits 10 s = Some n" by (simp add: parseDigits_def)
  from assms obtain c cs where s: "s = c # cs" by (cases s) auto
  with assms(2) have c: "c \<in> set ''0123456789''" by simp
  from c s p have sg: "parseSignedInteger s = Some (int n)"
    using decimal_digit_plain(2) [OF c] by (simp add: parseSignedInteger_def)
  have "StringToBigInt s = parseSignedInteger s"
  proof (cases cs)
    case Nil
    with s assms show ?thesis
      by (simp add: StringToBigInt_def trim_decimal Let_def)
  next
    case (Cons c1 ds)
    with s assms(2) have c1: "c1 \<in> set ''0123456789''" by simp
    from Cons s have t: "trim s = c # c1 # ds" using trim_decimal [OF assms(2)] by simp
    show ?thesis
      unfolding StringToBigInt_def t Let_def
      using decimal_digit_plain(2) [OF c1] by (simp add: s Cons)
  qed
  with sg p show ?thesis by simp
qed

text \<open>
  C1. Let s be a string that the BigInt constructor reads as a non-negative integer n
  (every non-empty string of decimal digits is one, by \<open>StringToBigInt_decimal\<close>). Then formatETHPrice s is the whole part, a dot, the
  trimmed fraction and " ETH", where the whole part is the canonical decimal numeral of
  the quotient of n by 10^18, the padded fraction is the 18-digit numeral of the
  remainder, and the trimmed fraction is the padded fraction without its trailing zeros;
  the trimmed fraction is empty exactly when the remainder is zero, and then the
  function returns the whole part followed by ".0000 ETH". In particular the price
  "1000000000000000000" is formatted as "1.0000 ETH".
\<close>

theorem formatETHPrice_nonnegative:
  assumes "StringToBigInt s = Some n" and "0 \<le> n"
  shows "let w = bigint_toString (n div 10 ^ 18);
             p = padStart 18 ''0'' (bigint_toString (n mod 10 ^ 18));
             f = stripTrailingZeros p
         in formatETHPrice s = w @ ''.'' @ (if f = [] then ''0000'' else f) @ '' ETH''
            \<and> parseDigits 10 w = Some (nat (n div 10 ^ 18))
            \<and> (w = ''0'' \<or> hd w \<noteq> CHR ''0'')
            \<and> length p = 18
            \<and> parseDigits 10 p = Some (nat (n mod 10 ^ 18))
            \<and> p = f @ replicate (18 - length f) (CHR ''0'')
            \<and> (f = [] \<or> last f \<noteq> CHR ''0'')
            \<and> (f = []) = (n mod 10 ^ 18 = 0)
            \<and> formatETHPrice ''1000000000000000000'' = ''1.0000 ETH''"
proof -
  define q where "q = n div 10 ^ 18"
  define r where "r = n mod 10 ^ 18"
  define w where "w = bigint_toString q"
  define p where "p = padStart 18 ''0'' (bigint_toString r)"
  define f where "f = stripTrailingZeros p"
  from assms(2) have q0: "0 \<le> q" by (simp add: q_def)
  have r0: "0 \<le> r" and r1: "r < 10 ^ 18" by (simp_all add: r_def)
  from r0 r1 have rn: "nat r < 10 ^ 18" by (simp add: nat_less_iff)
  have w: "w = digits_of_nat (nat q)" using q0 by (simp add: w_def bigint_toString_nonneg)
  have p: "p = padStart 18 ''0'' (digits_of_nat (nat r))"
    using r0 by (simp add: p_def bigint_toString_nonneg)
  have c1: "formatETHPrice s = w @ ''.'' @ (if f = [] then ''0000'' else f) @ '' ETH''"
    using formatETHPrice_try_parsed [OF assms]
    by (simp add: formatETHPrice_def Let_def w_def q_def f_def p_def r_def)
  have c2: "parseDigits 10 w = Some (nat q)" by (simp add: w parseDigits_digits_of_nat)
  have c3: "w = ''0'' \<or> hd w \<noteq> CHR ''0''" unfolding w by (rule digits_of_nat_canonical)
  have c4: "length p = 18" unfolding p using rn by (rule fraction_padded(1))
  have c5: "parseDigits 10 p = Some (nat r)" unfolding p using rn by (rule fraction_padded(2))
  have c6: "p = f @ replicate (18 - length f) (CHR ''0'')"
    using stripTrailingZeros_decomp [of p] by (simp add: f_def c4)
  have c7: "f = [] \<or> last f \<noteq> CHR ''0''" unfolding f_def by (rule stripTrailingZeros_last)
  have c8: "(f = []) = (r = 0)"
  proof
    assume "f = []"
    with c6 have "p = replicate 18 (CHR ''0'')" by simp
    with c5 have "nat r = 0" by (metis all_zero_value)
    with r0 show "r = 0" by simp
  next
    assume "r = 0"
    then have "p = replicate 18 (CHR ''0'')"
      by (simp add: p digits_of_nat.simps [of 0] digitChar_def padStart_single
          replicate_numeral_unfold)
    then show "f = []"
      by (simp add: f_def stripTrailingZeros_def)
  qed
  have c9: "formatETHPrice ''1000000000000000000'' = ''1.0000 ETH''"
    by (simp add: fmt_eval)
  from c1 c2 c3 c4 c5 c6 c7 c8 c9 show ?thesis
    unfolding Let_def w_def [symmetric] q_def [symmetric] r_def [symmetric]
      p_def [symmetric] f_def [symmetric]
    by blast
qed

theorem formatETHPrice_nonnegative_witness:
  "StringToBigInt ''1500000000000000000'' = Some 1500000000000000000
   \<and> formatETHPrice ''1500000000000000000'' = ''1.5 ETH''
   \<and> StringToBigInt ''1000000000000000000'' = Some 1000000000000000000
   \<and> formatETHPrice ''1000000000000000000'' = ''1.0000 ETH''"
proof -
  have a: "StringToBigInt ''1500000000000000000'' = Some 1500000000000000000"
    by (simp add: fmt_eval)
  have b: "StringToBigInt ''1000000000000000000'' = Some 1000000000000000000"
    by (simp add: fmt_eval)
  have n: "(0::int) \<le> 1500000000000000000" by simp
  have e: "bigint_toString 1 = ''1''"
      "stripTrailingZeros (padStart 18 ''0'' (bigint_toString 500000000000000000)) = ''5''"
    by (simp_all add: fmt_eval)
  from formatETHPrice_nonnegative [OF a n] have
    "formatETHPrice ''1500000000000000000'' = ''1.5 ETH''"
    by (simp add: Let_def e)
  moreover from formatETHPrice_nonnegative [OF a n] have
    "formatETHPrice ''1000000000000000000'' = ''1.0000 ETH''"
    by (simp add: Let_def)
  ultimately show ?thesis using a b by simp
qed

text \<open>
  C2. When the input does not parse as an integer, formatETHPrice returns the input
  unchanged. No call raises: whatever the try block throws, the function returns its
  argument, and the try block throws only when the input does not parse.
\<close>

theorem formatETHPrice_unparsable:
  "(StringToBigInt s = None \<longrightarrow> formatETHPrice s = s)
   \<and> (\<forall>e. formatETHPrice_try s = Inl e \<longrightarrow> formatETHPrice s = s)
   \<and> (\<exists>e. formatETHPrice_try s = Inl e) = (StringToBigInt s = None)"
proof (intro conjI allI impI)
  assume "StringToBigInt s = None"
  then show "formatETHPrice s = s"
    by (simp add: formatETHPrice_def formatETHPrice_try_unparsed)
next
  fix e assume "formatETHPrice_try s = Inl e"
  then show "formatETHPrice s = s" by (simp add: formatETHPrice_def)
next
  show "(\<exists>e. formatETHPrice_try s = Inl e) = (StringToBigInt s = None)"
    by (rule formatETHPrice_try_Inl_iff)
qed

theorem formatETHPrice_unparsable_witness:
  "StringToBigInt ''1.5 ether'' = None \<and> formatETHPrice ''1.5 ether'' = ''1.5 ether''
   \<and> formatETHPrice_try ''1.5 ether'' = Inl SyntaxError"
proof -
  have a: "StringToBigInt ''1.5 ether'' = None" by (simp add: fmt_eval)
  have b: "formatETHPrice_try ''1.5 ether'' = Inl SyntaxError"
    using a by (rule formatETHPrice_try_unparsed)
  from formatETHPrice_unparsable [of "''1.5 ether''"] a b show ?thesis by simp
qed

section \<open>The Buy page\<close>

text \<open>
  C4. Once the Buy page is past its guard clauses (neither fetch is loading, the
  indexer's listing has its name, artist and symbol, the contract reads report no error
  and delivered price, supply, minted count and a non-empty preview URI), a minted count
  greater than or equal to the supply renders "All Records Minted", whatever the wallet
  connection (and whatever the pending state of a mint). Conversely, whenever the page
  renders the record view with "Please Connect A Wallet" or the mint control, the
  fetched minted count is below the fetched supply; the connect message is the one shown
  exactly when no wallet is connected.
\<close>

theorem BuyRecordPage_sold_out_first:
  "(\<not> QueryResult.isLoading recordEmitQuery \<and> \<not> QueryResult.isLoading reads
      \<and> QueryResult.data recordEmitQuery
          = Some \<lparr>RecordEmitData.artist = Some artist', RecordEmitData.name = Some name',
            RecordEmitData.symbol = Some symbol'\<rparr>
      \<and> \<not> QueryResult.isError reads
      \<and> QueryResult.data reads = Some (price, supplyCap, minted, previewImageURI)
      \<and> previewImageURI \<noteq> [] \<and> supplyCap \<le> minted
    \<longrightarrow> BuyRecordPage hostname overlayShown isConnected isMintPending recordEmitQuery reads
        = RecordView (resolveIpfsUrl hostname previewImageURI) name' overlayShown name' artist'
            AllRecordsMinted)
   \<and> (\<forall>src alt overlay t a sec.
         BuyRecordPage hostname overlayShown isConnected isMintPending recordEmitQuery reads
           = RecordView src alt overlay t a sec
         \<and> sec \<noteq> AllRecordsMinted
       \<longrightarrow> (\<exists>p s n uri. QueryResult.data reads = Some (p, s, n, uri) \<and> n < s
              \<and> (sec = PleaseConnectAWallet) = (\<not> isConnected)))"
proof (intro conjI allI impI)
  assume "\<not> QueryResult.isLoading recordEmitQuery \<and> \<not> QueryResult.isLoading reads
      \<and> QueryResult.data recordEmitQuery
          = Some \<lparr>RecordEmitData.artist = Some artist', RecordEmitData.name = Some name',
            RecordEmitData.symbol = Some symbol'\<rparr>
      \<and> \<not> QueryResult.isError reads
      \<and> QueryResult.data reads = Some (price, supplyCap, minted, previewImageURI)
      \<and> previewImageURI \<noteq> [] \<and> supplyCap \<le> minted"
  then show "BuyRecordPage hostname overlayShown isConnected isMintPending recordEmitQuery reads
        = RecordView (resolveIpfsUrl hostname previewImageURI) name' overlayShown name' artist'
            AllRecordsMinted"
    by (simp add: BuyRecordPage_def useContractData_def)
next
  fix src alt overlay t a sec
  assume h: "BuyRecordPage hostname overlayShown isConnected isMintPending recordEmitQuery reads
           = RecordView src alt overlay t a sec
         \<and> sec \<noteq> AllRecordsMinted"
  show "\<exists>p s n uri. QueryResult.data reads = Some (p, s, n, uri) \<and> n < s
              \<and> (sec = PleaseConnectAWallet) = (\<not> isConnected)"
  proof (cases "QueryResult.data reads")
    case None
    with h show ?thesis
      by (simp add: BuyRecordPage_def useContractData_def Let_def
          split: if_splits option.splits)
  next
    case (Some quad)
    obtain p s n uri where q: "quad = (p, s, n, uri)" by (cases quad) auto
    from h Some q have "n < s \<and> (sec = PleaseConnectAWallet) = (\<not> isConnected)"
      by (auto simp: BuyRecordPage_def useContractData_def Let_def
          split: if_splits option.splits)
    with Some q show ?thesis by blast
  qed
qed

theorem BuyRecordPage_sold_out_first_witness:
  "BuyRecordPage ''localhost'' False False False
     \<lparr>QueryResult.data = Some \<lparr>RecordEmitData.artist = Some ''Ana'', RecordEmitData.name = Some ''Tides'',
            RecordEmitData.symbol = Some ''TDS''\<rparr>,
      QueryResult.isLoading = False, QueryResult.isSuccess = True,
      QueryResult.isError = False, QueryResult.error = None\<rparr>
     \<lparr>QueryResult.data = Some (1000000000000000000, 5, 5, ''ipfs://QmCover''),
      QueryResult.isLoading = False, QueryResult.isSuccess = True,
      QueryResult.isError = False, QueryResult.error = None\<rparr>
   = RecordView ''http://127.0.0.1:8080/ipfs/QmCover'' ''Tides'' False ''Tides'' ''Ana''
       AllRecordsMinted
   \<and> BuyRecordPage ''localhost'' False True False
     \<lparr>QueryResult.data = Some \<lparr>RecordEmitData.artist = Some ''Ana'', RecordEmitData.name = Some ''Tides'',
            RecordEmitData.symbol = Some ''TDS''\<rparr>,
      QueryResult.isLoading = False, QueryResult.isSuccess = True,
      QueryResult.isError = False, QueryResult.error = None\<rparr>
     \<lparr>QueryResult.data = Some (1000000000000000000, 5, 6, ''ipfs://QmCover''),
      QueryResult.isLoading = False, QueryResult.isSuccess = True,
      QueryResult.isError = False, QueryResult.error = None\<rparr>
   = RecordView ''http://127.0.0.1:8080/ipfs/QmCover'' ''Tides'' False ''Tides'' ''Ana''
       AllRecordsMinted"
proof -
  have r: "resolveIpfsUrl ''localhost'' ''ipfs://QmCover'' = ''http://127.0.0.1:8080/ipfs/QmCover''"
    by (simp add: resolveIpfsUrl_def)
  show ?thesis
    using BuyRecordPage_sold_out_first
      [of "\<lparr>QueryResult.data = Some \<lparr>RecordEmitData.artist = Some ''Ana'', RecordEmitData.name = Some ''Tides'',
            RecordEmitData.symbol = Some ''TDS''\<rparr>,
            QueryResult.isLoading = False, QueryResult.isSuccess = True,
      QueryResult.isError = False, QueryResult.error = None\<rparr>"
          "\<lparr>QueryResult.data = Some (1000000000000000000, 5, 5, ''ipfs://QmCover''),
            QueryResult.isLoading = False, QueryResult.isSuccess = True,
      QueryResult.isError = False, QueryResult.error = None\<rparr>"
          "''Ana''" "''Tides''" "''TDS''" 1000000000000000000 5 5 "''ipfs://QmCover''"
          "''localhost''" False False False]
      BuyRecordPage_sold_out_first
      [of "\<lparr>QueryResult.data = Some \<lparr>RecordEmitData.artist = Some ''Ana'', RecordEmitData.name = Some ''Tides'',
            RecordEmitData.symbol = Some ''TDS''\<rparr>,
            QueryResult.isLoading = False, QueryResult.isSuccess = True,
      QueryResult.isError = False, QueryResult.error = None\<rparr>"
          "\<lparr>QueryResult.data = Some (1000000000000000000, 5, 6, ''ipfs://QmCover''),
            QueryResult.isLoading = False, QueryResult.isSuccess = True,
      QueryResult.isError = False, QueryResult.error = None\<rparr>"
          "''Ana''" "''Tides''" "''TDS''" 1000000000000000000 5 6 "''ipfs://QmCover''"
          "''localhost''" False True False]
    by (simp add: r)
qed

section \<open>My Records: sanitizing the deployments\<close>

lemma sanitizedRecords_loop_acc:
  "sanitizedRecords_loop ga ia ds (list, console) =
     (list @ map (\<lambda>r. \<lparr>SanitizedRecord.contractAddress = normalizedAddress ga r,
                        SanitizedRecord.name = DeployedRecord.name r,
                        SanitizedRecord.artist = DeployedRecord.artist r\<rparr>)
               (filter (keptBySanitizer ga) ds),
      console @ concat (map (invalidRecordWarning ia) (filter (\<lambda>r. \<not> keptBySanitizer ga r) ds)))"
proof (induction ds arbitrary: list console)
  case Nil
  then show ?case by simp
next
  case (Cons r rs)
  show ?case
  proof (cases "normalizeAddress ga (Some (record' r))")
    case None
    then have "\<not> keptBySanitizer ga r" by (simp add: keptBySanitizer_def)
    with None Cons.IH show ?thesis by simp
  next
    case (Some a)
    show ?thesis
    proof (cases "a = []")
      case True
      with Some have "\<not> keptBySanitizer ga r" by (simp add: keptBySanitizer_def)
      with Some True Cons.IH show ?thesis by simp
    next
      case False
      with Some have "keptBySanitizer ga r" "normalizedAddress ga r = a"
        by (simp_all add: keptBySanitizer_def normalizedAddress_def)
      with Some False Cons.IH show ?thesis by simp
    qed
  qed
qed

lemma sanitizedRecords_eq:
  "sanitizedRecords ga ia ds =
     (map (\<lambda>r. \<lparr>SanitizedRecord.contractAddress = normalizedAddress ga r,
                 SanitizedRecord.name = DeployedRecord.name r,
                 SanitizedRecord.artist = DeployedRecord.artist r\<rparr>)
        (filter (keptBySanitizer ga) ds),
      concat (map (invalidRecordWarning ia) (filter (\<lambda>r. \<not> keptBySanitizer ga r) ds)))"
  by (simp add: sanitizedRecords_def sanitizedRecords_loop_acc)

lemma ownedItems_from_sanitized:
  "item \<in> set (ownedItems sanitized m) \<Longrightarrow>
   \<exists>rec \<in> set sanitized. SanitizedRecord.contractAddress item = SanitizedRecord.contractAddress rec
      \<and> SanitizedRecord.name item = SanitizedRecord.name rec
      \<and> SanitizedRecord.artist item = SanitizedRecord.artist rec"
proof (induction sanitized)
  case Nil
  then show ?case by simp
next
  case (Cons rec rest)
  then show ?case
    by (auto split: option.splits if_splits)
qed

lemma hex_address_samples:
  "isHexAddress ''0x52908400098527886E0F7030069857D2E4169EE7''"
  "isHexAddress ''0x52908400098527886e0F7030069857D2E4169EE7''"
  "\<not> isHexAddress ''0x1234''"
  "\<not> isHexAddress []"
  by (simp_all add: isHexAddress_def digitValue_def)

lemma toLowerCase_sample:
  "toLowerCase ''0x52908400098527886E0F7030069857D2E4169EE7''
     = ''0x52908400098527886e0f7030069857d2e4169ee7''"
  "toLowerCase ''0xde709f2102306220921060314715629080e2fb77''
     = ''0xde709f2102306220921060314715629080e2fb77''"
  "toLowerCase ''0x52908400098527886e0F7030069857D2E4169EE7''
     = ''0x52908400098527886e0f7030069857d2e4169ee7''"
  "toLowerCase ''0x52908400098527886e0f7030069857d2e4169ee7''
     = ''0x52908400098527886e0f7030069857d2e4169ee7''"
  by code_simp+

lemma eip55_vectors_sample:
  "eip55_vectors ''0x52908400098527886E0F7030069857D2E4169EE7''
     = ''0x52908400098527886E0F7030069857D2E4169EE7''"
  "eip55_vectors ''0x52908400098527886e0F7030069857D2E4169EE7''
     = ''0x52908400098527886E0F7030069857D2E4169EE7''"
  by (simp_all add: eip55_vectors_def toLowerCase_sample)

lemma eip55_vectors_case_only: "toLowerCase (eip55_vectors t) = toLowerCase t"
  by (simp add: eip55_vectors_def toLowerCase_sample)

lemma trim_sample:
  "trim '' 0x52908400098527886E0F7030069857D2E4169EE7''
      = ''0x52908400098527886E0F7030069857D2E4169EE7''"
  "trim ''0x52908400098527886E0F7030069857D2E4169EE7''
      = ''0x52908400098527886E0F7030069857D2E4169EE7''"
  "trim ''0x52908400098527886e0F7030069857D2E4169EE7''
      = ''0x52908400098527886e0F7030069857D2E4169EE7''"
  "trim ''0x1234'' = ''0x1234''"
  "trim [] = []"
  by (simp_all add: trim_def isWhiteSpace_def)

lemma viem_keptBySanitizer:
  assumes "\<forall>t. isHexAddress t \<longrightarrow> toLowerCase (checksumAddress t) = toLowerCase t"
  shows "keptBySanitizer (viem_getAddress checksumAddress) r = isHexAddress (trim (record' r))"
    and "isHexAddress (trim (record' r)) \<Longrightarrow>
         normalizedAddress (viem_getAddress checksumAddress) r = checksumAddress (trim (record' r))"
proof -
  have ne: "checksumAddress t \<noteq> []" if "isHexAddress t" for t
  proof
    assume "checksumAddress t = []"
    with assms that have "toLowerCase t = []" by (metis toLowerCase_def list.map_disc_iff)
    then have "t = []" by (simp add: toLowerCase_def)
    with that show False by (simp add: isHexAddress_def)
  qed
  have e: "\<not> isHexAddress []" by (simp add: isHexAddress_def)
  have t0: "trim [] = []" by (simp add: trim_def)
  show "keptBySanitizer (viem_getAddress checksumAddress) r = isHexAddress (trim (record' r))"
  proof (cases "record' r = []")
    case True
    then show ?thesis
      by (simp add: keptBySanitizer_def normalizeAddress_def t0 e)
  next
    case False
    then show ?thesis
      using ne [of "trim (record' r)"] e
      by (auto simp: keptBySanitizer_def normalizeAddress_def viem_getAddress_def Let_def)
  qed
  show "normalizedAddress (viem_getAddress checksumAddress) r = checksumAddress (trim (record' r))"
    if "isHexAddress (trim (record' r))"
  proof -
    from that e have "trim (record' r) \<noteq> []" by auto
    moreover from this t0 have "record' r \<noteq> []" by auto
    ultimately show ?thesis
      using that by (simp add: normalizedAddress_def normalizeAddress_def viem_getAddress_def Let_def)
  qed
qed

lemma viem_invalidRecordWarning:
  "\<not> isHexAddress (trim (record' r)) \<Longrightarrow>
   invalidRecordWarning (viem_isAddress checksumAddress) r
     = (if record' r \<noteq> [] then [InvalidRecordAddressWarning (record' r)] else [])"
  by (simp add: invalidRecordWarning_def viem_isAddress_def)

text \<open>
  C5, as amended. With viem's validators, the sanitizing loop keeps exactly the
  deployments whose trimmed record string is a well-formed address. A deployment whose
  record is not one (an empty or blank string included) is excluded from the batched
  ownership reads and from the rendered list, and a warning is logged for it unless its
  record string is empty. The addresses of the batch are, in order, the EIP-55 forms of
  the well-formed records (the batch is enabled when an account is connected and some
  record is well formed), and every rendered card carries the address, name and artist
  of such a deployment. So every deployment that passes the checksum validation
  (isAddress) is read; and a well-formed address that fails it, because its letter case
  is not its EIP-55 form, is read under its EIP-55 form too: the checksum decides
  neither the exclusion nor the warning.
\<close>

theorem MyRecords_reads_well_formed_addresses:
  assumes "\<forall>t. isHexAddress t \<longrightarrow> toLowerCase (checksumAddress t) = toLowerCase t"
  shows "map ContractRead.address
           (fst (tokensOfOwnerReads userAddress
              (fst (sanitizedRecords (viem_getAddress checksumAddress)
                      (viem_isAddress checksumAddress) ds))))
         = map (\<lambda>r. checksumAddress (trim (record' r)))
             (filter (\<lambda>r. isHexAddress (trim (record' r))) ds)
       \<and> snd (tokensOfOwnerReads userAddress
              (fst (sanitizedRecords (viem_getAddress checksumAddress)
                      (viem_isAddress checksumAddress) ds)))
         = (userAddress \<noteq> None \<and> userAddress \<noteq> Some []
            \<and> filter (\<lambda>r. isHexAddress (trim (record' r))) ds \<noteq> [])
       \<and> (\<forall>cards card.
             Grid cards \<in> set (MyRecords (viem_getAddress checksumAddress)
                                  (viem_isAddress checksumAddress)
                                  (st\<lparr>deployedRecords := ds\<rparr>) batch)
             \<and> card \<in> set cards
           \<longrightarrow> (\<exists>r \<in> set ds. isHexAddress (trim (record' r))
                  \<and> RecordBoxElement.contractAddress card = checksumAddress (trim (record' r))
                  \<and> RecordBoxElement.name card = DeployedRecord.name r
                  \<and> RecordBoxElement.artist card = DeployedRecord.artist r))
       \<and> snd (sanitizedRecords (viem_getAddress checksumAddress)
                (viem_isAddress checksumAddress) ds)
         = map (\<lambda>r. InvalidRecordAddressWarning (record' r))
             (filter (\<lambda>r. \<not> isHexAddress (trim (record' r)) \<and> record' r \<noteq> []) ds)
       \<and> (\<forall>r \<in> set ds. viem_isAddress checksumAddress (trim (record' r)) \<longrightarrow>
             checksumAddress (trim (record' r))
               \<in> set (map ContractRead.address
                    (fst (tokensOfOwnerReads userAddress
                       (fst (sanitizedRecords (viem_getAddress checksumAddress)
                               (viem_isAddress checksumAddress) ds))))))
       \<and> (\<forall>r \<in> set ds. isHexAddress (trim (record' r))
               \<and> \<not> viem_isAddress checksumAddress (trim (record' r)) \<longrightarrow>
             checksumAddress (trim (record' r))
               \<in> set (map ContractRead.address
                    (fst (tokensOfOwnerReads userAddress
                       (fst (sanitizedRecords (viem_getAddress checksumAddress)
                               (viem_isAddress checksumAddress) ds))))))"
proof -
  let ?ga = "viem_getAddress checksumAddress"
  let ?ia = "viem_isAddress checksumAddress"
  let ?wf = "\<lambda>r. isHexAddress (trim (record' r))"
  let ?cs = "\<lambda>r. checksumAddress (trim (record' r))"
  note kept = viem_keptBySanitizer [OF assms]
  have k: "keptBySanitizer ?ga = ?wf"
    by (rule ext) (rule kept(1))
  have n: "map (normalizedAddress ?ga) (filter ?wf ds) = map ?cs (filter ?wf ds)"
    by (rule map_cong [OF refl]) (simp add: kept(2))
  have list: "fst (sanitizedRecords ?ga ?ia ds)
      = map (\<lambda>r. \<lparr>SanitizedRecord.contractAddress = normalizedAddress ?ga r,
                   SanitizedRecord.name = DeployedRecord.name r,
                   SanitizedRecord.artist = DeployedRecord.artist r\<rparr>) (filter ?wf ds)"
    by (simp add: sanitizedRecords_eq k)
  have reads: "map ContractRead.address (fst (tokensOfOwnerReads userAddress
        (fst (sanitizedRecords ?ga ?ia ds)))) = map ?cs (filter ?wf ds)"
    unfolding list using n by (simp add: tokensOfOwnerReads_def comp_def)
  have enabled: "snd (tokensOfOwnerReads userAddress (fst (sanitizedRecords ?ga ?ia ds)))
      = (userAddress \<noteq> None \<and> userAddress \<noteq> Some [] \<and> filter ?wf ds \<noteq> [])"
    unfolding list by (simp add: tokensOfOwnerReads_def)
  have cards: "\<exists>r \<in> set ds. ?wf r
                  \<and> RecordBoxElement.contractAddress card = ?cs r
                  \<and> RecordBoxElement.name card = DeployedRecord.name r
                  \<and> RecordBoxElement.artist card = DeployedRecord.artist r"
    if h: "Grid cards \<in> set (MyRecords ?ga ?ia (st\<lparr>deployedRecords := ds\<rparr>) batch)
           \<and> card \<in> set cards" for cards card
  proof -
    let ?items = "ownedItems (fst (sanitizedRecords ?ga ?ia ds)) (ownedTokensByContract st)"
    from h have "cards = map ownedCard ?items"
      by (auto simp: MyRecords_def Let_def split: if_splits)
    with h obtain item where item: "item \<in> set ?items" and card: "card = ownedCard item"
      by auto
    from ownedItems_from_sanitized [OF item] obtain rec where
      rec: "rec \<in> set (fst (sanitizedRecords ?ga ?ia ds))"
        "SanitizedRecord.contractAddress item = SanitizedRecord.contractAddress rec"
        "SanitizedRecord.name item = SanitizedRecord.name rec"
        "SanitizedRecord.artist item = SanitizedRecord.artist rec"
      by blast
    from rec(1) obtain r where r: "r \<in> set ds" "?wf r"
      "rec = \<lparr>SanitizedRecord.contractAddress = normalizedAddress ?ga r,
              SanitizedRecord.name = DeployedRecord.name r,
              SanitizedRecord.artist = DeployedRecord.artist r\<rparr>"
      unfolding list by auto
    from r(2) have "normalizedAddress ?ga r = ?cs r" by (rule kept(2))
    with r rec card have "?wf r
                  \<and> RecordBoxElement.contractAddress card = ?cs r
                  \<and> RecordBoxElement.name card = DeployedRecord.name r
                  \<and> RecordBoxElement.artist card = DeployedRecord.artist r"
      by (simp add: ownedCard_def)
    with r(1) show ?thesis by blast
  qed
  have warn: "concat (map (invalidRecordWarning ?ia) (filter (\<lambda>r. \<not> ?wf r) xs))
      = map (\<lambda>r. InvalidRecordAddressWarning (record' r))
          (filter (\<lambda>r. \<not> ?wf r \<and> record' r \<noteq> []) xs)" for xs
    by (induction xs) (auto simp: viem_invalidRecordWarning)
  have console: "snd (sanitizedRecords ?ga ?ia ds)
      = map (\<lambda>r. InvalidRecordAddressWarning (record' r))
          (filter (\<lambda>r. \<not> ?wf r \<and> record' r \<noteq> []) ds)"
    by (simp add: sanitizedRecords_eq k warn)
  have inc: "?cs r \<in> set (map ?cs (filter ?wf ds))" if "r \<in> set ds" and "?wf r" for r
    using that by auto
  have passes: "\<forall>r \<in> set ds. ?ia (trim (record' r)) \<longrightarrow>
      ?cs r \<in> set (map ContractRead.address (fst (tokensOfOwnerReads userAddress
        (fst (sanitizedRecords ?ga ?ia ds)))))"
    unfolding reads using inc by (auto simp: viem_isAddress_def)
  have fails: "\<forall>r \<in> set ds. ?wf r \<and> \<not> ?ia (trim (record' r)) \<longrightarrow>
      ?cs r \<in> set (map ContractRead.address (fst (tokensOfOwnerReads userAddress
        (fst (sanitizedRecords ?ga ?ia ds)))))"
    unfolding reads using inc by auto
  from reads enabled cards console passes fails show ?thesis by blast
qed

theorem MyRecords_reads_well_formed_addresses_witness:
  "map ContractRead.address
     (fst (tokensOfOwnerReads (Some ''0xUser'')
        (fst (sanitizedRecords (viem_getAddress eip55_vectors) (viem_isAddress eip55_vectors)
           [\<lparr>record' = '' 0x52908400098527886E0F7030069857D2E4169EE7'',
             DeployedRecord.artist = ''Ana'', DeployedRecord.name = ''Tides'',
             DeployedRecord.contractAddress = ''0xFactory''\<rparr>,
            \<lparr>record' = ''0x1234'', DeployedRecord.artist = ''Bo'',
             DeployedRecord.name = ''Dunes'',
             DeployedRecord.contractAddress = ''0xFactory''\<rparr>]))))
     = [''0x52908400098527886E0F7030069857D2E4169EE7'']
   \<and> snd (sanitizedRecords (viem_getAddress eip55_vectors) (viem_isAddress eip55_vectors)
           [\<lparr>record' = '' 0x52908400098527886E0F7030069857D2E4169EE7'',
             DeployedRecord.artist = ''Ana'', DeployedRecord.name = ''Tides'',
             DeployedRecord.contractAddress = ''0xFactory''\<rparr>,
            \<lparr>record' = ''0x1234'', DeployedRecord.artist = ''Bo'',
             DeployedRecord.name = ''Dunes'',
             DeployedRecord.contractAddress = ''0xFactory''\<rparr>])
     = [InvalidRecordAddressWarning ''0x1234'']"
proof -
  have a: "\<forall>t. isHexAddress t \<longrightarrow> toLowerCase (eip55_vectors t) = toLowerCase t"
    by (simp add: eip55_vectors_case_only)
  from MyRecords_reads_well_formed_addresses [OF a, of "Some ''0xUser''"
         "[\<lparr>record' = '' 0x52908400098527886E0F7030069857D2E4169EE7'',
             DeployedRecord.artist = ''Ana'', DeployedRecord.name = ''Tides'',
             DeployedRecord.contractAddress = ''0xFactory''\<rparr>,
            \<lparr>record' = ''0x1234'', DeployedRecord.artist = ''Bo'',
             DeployedRecord.name = ''Dunes'',
             DeployedRecord.contractAddress = ''0xFactory''\<rparr>]"]
  show ?thesis
    by (simp add: trim_sample hex_address_samples eip55_vectors_sample)
qed

text \<open>
  The claim as stated fails twice. A record whose letter case is not its EIP-55 form
  (here the first test vector with one letter in lower case) fails the checksum
  validation, and yet it is read, under its EIP-55 form, and nothing is logged. And a
  deployment with an empty record string is excluded, and nothing is logged for it.
\<close>

theorem MyRecords_wrong_checksum_counterexample:
  "\<not> viem_isAddress eip55_vectors (trim ''0x52908400098527886e0F7030069857D2E4169EE7'')
   \<and> map ContractRead.address
       (fst (tokensOfOwnerReads (Some ''0xUser'')
          (fst (sanitizedRecords (viem_getAddress eip55_vectors) (viem_isAddress eip55_vectors)
             [\<lparr>record' = ''0x52908400098527886e0F7030069857D2E4169EE7'',
               DeployedRecord.artist = ''Ana'', DeployedRecord.name = ''Tides'',
               DeployedRecord.contractAddress = ''0xFactory''\<rparr>]))))
     = [''0x52908400098527886E0F7030069857D2E4169EE7'']
   \<and> snd (sanitizedRecords (viem_getAddress eip55_vectors) (viem_isAddress eip55_vectors)
         [\<lparr>record' = ''0x52908400098527886e0F7030069857D2E4169EE7'',
           DeployedRecord.artist = ''Ana'', DeployedRecord.name = ''Tides'',
           DeployedRecord.contractAddress = ''0xFactory''\<rparr>]) = []
   \<and> fst (sanitizedRecords (viem_getAddress eip55_vectors) (viem_isAddress eip55_vectors)
         [\<lparr>record' = '''', DeployedRecord.artist = ''Ana'', DeployedRecord.name = ''Tides'',
           DeployedRecord.contractAddress = ''0xFactory''\<rparr>]) = []
   \<and> snd (sanitizedRecords (viem_getAddress eip55_vectors) (viem_isAddress eip55_vectors)
         [\<lparr>record' = '''', DeployedRecord.artist = ''Ana'', DeployedRecord.name = ''Tides'',
           DeployedRecord.contractAddress = ''0xFactory''\<rparr>]) = []"
proof -
  have c1: "\<not> viem_isAddress eip55_vectors (trim ''0x52908400098527886e0F7030069857D2E4169EE7'')"
    by (simp add: viem_isAddress_def trim_sample toLowerCase_sample eip55_vectors_sample)
  have s: "sanitizedRecords (viem_getAddress eip55_vectors) (viem_isAddress eip55_vectors)
         [\<lparr>record' = ''0x52908400098527886e0F7030069857D2E4169EE7'',
           DeployedRecord.artist = ''Ana'', DeployedRecord.name = ''Tides'',
           DeployedRecord.contractAddress = ''0xFactory''\<rparr>]
      = ([\<lparr>SanitizedRecord.contractAddress = ''0x52908400098527886E0F7030069857D2E4169EE7'',
           SanitizedRecord.name = ''Tides'', SanitizedRecord.artist = ''Ana''\<rparr>], [])"
    by (simp add: sanitizedRecords_def normalizeAddress_def trim_sample viem_getAddress_def
        hex_address_samples eip55_vectors_sample)
  have e: "sanitizedRecords (viem_getAddress eip55_vectors) (viem_isAddress eip55_vectors)
         [\<lparr>record' = '''', DeployedRecord.artist = ''Ana'', DeployedRecord.name = ''Tides'',
           DeployedRecord.contractAddress = ''0xFactory''\<rparr>] = ([], [])"
    by (simp add: sanitizedRecords_def normalizeAddress_def invalidRecordWarning_def)
  from c1 show ?thesis
    unfolding s e by (simp add: tokensOfOwnerReads_def)
qed

section \<open>My Records: the owned items\<close>








section \<open>Empty collections\<close>

text \<open>
  My Records shows its message when nothing is loading, nothing failed and no item is
  owned; so it does after a fetch that returned no deployment.
\<close>

lemma MyRecords_empty_message:
  assumes "\<not> isFetching st" and "fetchError st = None"
    and "\<not> QueryResult.isLoading batch" and "\<not> QueryResult.isError batch"
    and "ownedItems (fst (sanitizedRecords getAddress isAddress (deployedRecords st)))
           (ownedTokensByContract st) = []"
  shows "MyRecords getAddress isAddress st batch
           = [Heading ''Your Record Collection'', NoRecordsOwnedText, Grid []]"
  using assms by (simp add: MyRecords_def Let_def)

lemma MyRecords_nothing_owned_after_fetch:
  assumes "userAddress = Some account" and "account \<noteq> []"
    and "\<not> QueryResult.isLoading batch" and "\<not> QueryResult.isError batch"
  shows "MyRecords getAddress isAddress
           (deploymentsFetched userAddress False (Resolved (Some [])) st) batch
         = [Heading ''Your Record Collection'', NoRecordsOwnedText, Grid []]"
  using assms
  by (simp add: MyRecords_def deploymentsFetched_def sanitizedRecords_def Let_def)

text \<open>
  C7. Both collection views are to render an explicit message for a fetch sequence that
  completed successfully with no item. My Records does (the two lemmas above). The
  Store does not: for a successful response with no deployment it renders the heading
  and an empty grid, and nothing else.
\<close>

theorem Store_empty_result:
  "Store \<lparr>QueryResult.data =
             Some (RecordQueryResponse (Some (ResponseData (Some (Deployeds (Some [])))))),
          QueryResult.isLoading = False, QueryResult.isSuccess = True,
          QueryResult.isError = False, QueryResult.error = None\<rparr>
     = Inr [Heading ''Recent Releases'', Grid []]"
  by (simp add: Store_def Store_records_def)

section \<open>The Owner page: the track list\<close>

lemma compareTracks_le: "(compareTracks a b \<le> 0) = (trackNumber a \<le> trackNumber b)"
  by (simp add: compareTracks_def)

lemma mset_insertSorted: "mset (insertSorted cmp x ys) = add_mset x (mset ys)"
  by (induction ys) auto

lemma mset_Array_sort: "mset (Array_sort cmp xs) = mset xs"
  by (induction xs) (auto simp: Array_sort_def mset_insertSorted)

lemma set_insertSorted: "set (insertSorted cmp x ys) = insert x (set ys)"
  by (induction ys) auto

lemma sorted_insertSorted:
  "sorted (map trackNumber ys) \<Longrightarrow> sorted (map trackNumber (insertSorted compareTracks x ys))"
proof (induction ys)
  case Nil
  then show ?case by simp
next
  case (Cons y ys)
  show ?case
  proof (cases "compareTracks x y \<le> 0")
    case True
    with Cons.prems show ?thesis
      by (auto simp: compareTracks_le)
  next
    case False
    then have "trackNumber y \<le> trackNumber x" by (simp add: compareTracks_le)
    with Cons False show ?thesis
      by (auto simp: set_insertSorted)
  qed
qed

lemma sorted_Array_sort: "sorted (map trackNumber (Array_sort compareTracks xs))"
proof (induction xs)
  case Nil
  then show ?case by (simp add: Array_sort_def)
next
  case (Cons x xs)
  have "Array_sort compareTracks (x # xs) = insertSorted compareTracks x (Array_sort compareTracks xs)"
    by (simp add: Array_sort_def)
  with Cons show ?case by (simp add: sorted_insertSorted)
qed

lemma track_numbers_order_independent:
  assumes "mset ss' = mset ss"
  shows "map trackNumber (Array_sort compareTracks ss') = map trackNumber (Array_sort compareTracks ss)"
proof -
  have "mset (map trackNumber (Array_sort compareTracks ss'))
      = mset (map trackNumber (Array_sort compareTracks ss))"
    using assms by (simp add: mset_Array_sort)
  moreover have "sorted (map trackNumber (Array_sort compareTracks ss'))"
    and "sorted (map trackNumber (Array_sort compareTracks ss))"
    by (rule sorted_Array_sort)+
  ultimately show ?thesis
    by (metis properties_for_sort)
qed

text \<open>
  C8. For a metadata document with a non-empty song list, the Owner page renders a track
  list: one element per song of the document (the same songs, as a multiset), in
  ascending order of track number (a missing number counts as 0). The sequence of track
  numbers rendered is the same for every order of the songs in the input. The audio
  source of each rendered track is the resolved form of that song's audio URI, and its
  label is that song's track number.
\<close>

theorem OwnerRecordPage_tracks_sorted:
  assumes "songs md = Some ss" and "ss \<noteq> []"
  shows "OwnerRecordPage_tracks hostname (Some md)
           = TrackList (map (trackElement hostname) (Array_sort compareTracks ss))
         \<and> sorted (map trackNumber (Array_sort compareTracks ss))
         \<and> mset (Array_sort compareTracks ss) = mset ss
         \<and> (\<forall>ss'. mset ss' = mset ss \<longrightarrow>
               map trackNumber (Array_sort compareTracks ss')
                 = map trackNumber (Array_sort compareTracks ss))
         \<and> map audioSrc (map (trackElement hostname) (Array_sort compareTracks ss))
             = map (\<lambda>song. resolveIpfsUrl hostname (audio song)) (Array_sort compareTracks ss)
         \<and> map trackLabel (map (trackElement hostname) (Array_sort compareTracks ss))
             = map Song.track (Array_sort compareTracks ss)"
proof (intro conjI allI impI)
  from assms show "OwnerRecordPage_tracks hostname (Some md)
           = TrackList (map (trackElement hostname) (Array_sort compareTracks ss))"
    by (simp add: OwnerRecordPage_tracks_def)
next
  show "sorted (map trackNumber (Array_sort compareTracks ss))"
    by (rule sorted_Array_sort)
next
  show "mset (Array_sort compareTracks ss) = mset ss"
    by (rule mset_Array_sort)
next
  fix ss' assume "mset ss' = mset ss"
  then show "map trackNumber (Array_sort compareTracks ss')
                 = map trackNumber (Array_sort compareTracks ss)"
    by (rule track_numbers_order_independent)
next
  show "map audioSrc (map (trackElement hostname) (Array_sort compareTracks ss))
             = map (\<lambda>song. resolveIpfsUrl hostname (audio song)) (Array_sort compareTracks ss)"
    by (simp add: trackElement_def comp_def)
next
  show "map trackLabel (map (trackElement hostname) (Array_sort compareTracks ss))
             = map Song.track (Array_sort compareTracks ss)"
    by (simp add: trackElement_def comp_def)
qed

theorem OwnerRecordPage_tracks_sorted_witness:
  "OwnerRecordPage_tracks ''localhost''
     (Some \<lparr>RecordMetadata.name = ''Tides'', RecordMetadata.artist = Some ''Ana'',
            image = None, description = None, animation_url = None,
            songs = Some
              [\<lparr>Song.track = Some 2, title = ''Ebb'', Song.artist = ''Ana'', duration = None,
                audio = ''ipfs://QmEbb''\<rparr>,
               \<lparr>Song.track = Some 1, title = ''Flow'', Song.artist = ''Ana'',
                duration = Some ''3:05'', audio = ''ipfs://QmFlow''\<rparr>]\<rparr>)
   = TrackList
       [\<lparr>trackLabel = Some 1, titleText = ''Flow'', TrackElement.artistText = ''Ana'',
         durationText = Some ''3:05'', audioSrc = ''http://127.0.0.1:8080/ipfs/QmFlow''\<rparr>,
        \<lparr>trackLabel = Some 2, titleText = ''Ebb'', TrackElement.artistText = ''Ana'',
         durationText = None, audioSrc = ''http://127.0.0.1:8080/ipfs/QmEbb''\<rparr>]"
proof -
  let ?a = "\<lparr>Song.track = Some 2, title = ''Ebb'', Song.artist = ''Ana'', duration = None,
                audio = ''ipfs://QmEbb''\<rparr>"
  let ?b = "\<lparr>Song.track = Some 1, title = ''Flow'', Song.artist = ''Ana'',
                duration = Some ''3:05'', audio = ''ipfs://QmFlow''\<rparr>"
  let ?md = "\<lparr>RecordMetadata.name = ''Tides'', RecordMetadata.artist = Some ''Ana'',
            image = None, description = None, animation_url = None,
            songs = Some [?a, ?b]\<rparr>"
  have s: "songs ?md = Some [?a, ?b]" by simp
  have n: "[?a, ?b] \<noteq> []" by simp
  have e: "Array_sort compareTracks [?a, ?b] = [?b, ?a]"
    by (simp add: Array_sort_def compareTracks_def trackNumber_def)
  have r: "resolveIpfsUrl ''localhost'' ''ipfs://QmEbb'' = ''http://127.0.0.1:8080/ipfs/QmEbb''"
    "resolveIpfsUrl ''localhost'' ''ipfs://QmFlow'' = ''http://127.0.0.1:8080/ipfs/QmFlow''"
    by (simp_all add: resolveIpfsUrl_def)
  from OwnerRecordPage_tracks_sorted [OF s n, of "''localhost''"] show ?thesis
    unfolding e by (simp add: trackElement_def r)
qed

section \<open>The record card\<close>

lemma resolveImage_try_fails:
  "metadataFails (fetch (resolveIpfsUrl hostname uri)) \<Longrightarrow>
   \<exists>e. resolveImage_try hostname (Owned c tid) uri fetch = Inl e"
  by (auto simp: metadataFails_def resolveImage_try_def
      split: FetchOutcome.splits MetadataBody.splits option.splits)

lemma RecordBox_view:
  assumes "readConfig props = Inr config"
  shows "RecordBox props read st =
     Inr \<lparr>linkHref = defaultHref props,
          linkClassName = (case className (commonProps props) of None \<Rightarrow> ''block'' | Some c \<Rightarrow> c),
          imageView =
            (if QueryResult.isLoading read \<or> isLoadingImage st then LoadingImage
             else if QueryResult.error read \<noteq> None \<or> imageError st \<noteq> None
                     \<or> ImageState.imageUrl st = None \<or> ImageState.imageUrl st = Some []
                  then PlaceholderImage
                  else (case ImageState.imageUrl st of
                          Some url \<Rightarrow> CoverImage url (CommonProps.name (commonProps props))
                        | None \<Rightarrow> PlaceholderImage)),
          nameText = CommonProps.name (commonProps props),
          RecordBoxView.artistText = CommonProps.artist (commonProps props)\<rparr>"
  using assms
  by (auto simp: RecordBox_def useRecordImage_def Let_def split: option.splits)

lemma imageEffect_settled:
  assumes "\<not> isLoadingImage st"
  shows "\<not> isLoadingImage (imageEffect hostname props read fetch False st)"
  using assms
  by (auto simp: imageEffect_def Let_def
      split: option.splits sum.splits RecordBoxProps.splits)

lemma imageEffect_failed:
  assumes "QueryResult.data read = Some uri" and "uri \<noteq> []"
    and "\<not> QueryResult.isLoading read"
    and "resolveImage_try hostname props uri fetch = Inl e"
  shows "imageError (imageEffect hostname props read fetch False st) = Some e"
  using assms
  by (auto simp: imageEffect_def Let_def split: RecordBoxProps.splits)

text \<open>
  From a state with no image request in flight (the state of a card on mount, and the
  state every completed run leaves, by \<open>imageEffect_settled\<close>), a card of either variant
  whose read has settled renders the static placeholder when the on-chain URI read
  reports an error, when the metadata request fails (the fetch rejects, the response is
  not ok, the body is not JSON) and when the document has no image field; rendering
  returns a view, not an exception.
\<close>

lemma RecordBox_fallback_when_settled:
  assumes "readConfig props = Inr config"
    and "\<not> QueryResult.isLoading read"
    and "\<not> isLoadingImage st"
    and "QueryResult.error read \<noteq> None
         \<or> (\<exists>c tid uri. props = Owned c tid \<and> QueryResult.data read = Some uri \<and> uri \<noteq> []
               \<and> metadataFails (fetch (resolveIpfsUrl hostname uri)))"
  shows "RecordBox props read (imageEffect hostname props read fetch False st) =
     Inr \<lparr>linkHref = defaultHref props,
          linkClassName = (case className (commonProps props) of None \<Rightarrow> ''block'' | Some c \<Rightarrow> c),
          imageView = PlaceholderImage,
          nameText = CommonProps.name (commonProps props),
          RecordBoxView.artistText = CommonProps.artist (commonProps props)\<rparr>"
proof -
  let ?st = "imageEffect hostname props read fetch False st"
  have settled: "\<not> isLoadingImage ?st"
    using assms(3) by (rule imageEffect_settled)
  have failed: "QueryResult.error read \<noteq> None \<or> imageError ?st \<noteq> None"
  proof (cases "QueryResult.error read \<noteq> None")
    case True
    then show ?thesis by simp
  next
    case False
    with assms(4) obtain c tid uri where p: "props = Owned c tid"
      and u: "QueryResult.data read = Some uri" "uri \<noteq> []"
      and m: "metadataFails (fetch (resolveIpfsUrl hostname uri))"
      by blast
    from resolveImage_try_fails [of "fetch" hostname uri c tid] m p obtain e where
      "resolveImage_try hostname props uri fetch = Inl e" by blast
    with u assms(2) have "imageError ?st = Some e"
      by (rule imageEffect_failed)
    then show ?thesis by simp
  qed
  show ?thesis
    unfolding RecordBox_view [OF assms(1)]
    using assms(2) settled failed by auto
qed

text \<open>
  A run that the cleanup abandons while the metadata request is awaited has set the
  loading mark and never clears it; a run that finds no on-chain URI returns at once and
  leaves the state as it is. So the mark outlives the abandoned run whenever the read
  comes back without data.
\<close>

lemma imageEffect_abandoned:
  assumes "QueryResult.data read = Some uri" and "uri \<noteq> []"
    and "\<not> QueryResult.isLoading read"
  shows "isLoadingImage (imageEffect hostname (Owned c tid) read fetch True st)"
  using assms by (simp add: imageEffect_def Let_def)

lemma imageEffect_without_uri:
  "QueryResult.data read = None \<Longrightarrow> imageEffect hostname props read fetch cancelled st = st"
  by (simp add: imageEffect_def)

lemma RecordBox_keeps_loading:
  assumes "readConfig props = Inr config" and "isLoadingImage st"
    and "QueryResult.data read = None"
  shows "RecordBox props read (imageEffect hostname props read fetch cancelled st) =
     Inr \<lparr>linkHref = defaultHref props,
          linkClassName = (case className (commonProps props) of None \<Rightarrow> ''block'' | Some c \<Rightarrow> c),
          imageView = LoadingImage,
          nameText = CommonProps.name (commonProps props),
          RecordBoxView.artistText = CommonProps.artist (commonProps props)\<rparr>"
  unfolding imageEffect_without_uri [OF assms(3)] RecordBox_view [OF assms(1)]
  using assms(2) by simp

text \<open>
  C9. The card is to render the static placeholder whenever the image resolution fails.
  It does not after an abandoned request. An owned card reads its token URI and starts
  the metadata request; the read's data goes away while the request is awaited (the run
  is abandoned by the cleanup, the next run finds the read loading and returns); the
  read then settles with an error and no data, and the last run returns at once. The
  loading mark of the abandoned run is still set, and the card, whose on-chain read has
  failed, renders the loading placeholder instead of the static one.
\<close>

theorem RecordBox_stuck_on_loading:
  "imageEffect ''localhost''
     (Owned \<lparr>CommonProps.contractAddress = ''0x52908400098527886E0F7030069857D2E4169EE7'',
             CommonProps.name = ''Tides'', CommonProps.artist = ''Ana'',
             CommonProps.href = None, className = None\<rparr> (BigIntId 7))
     \<lparr>QueryResult.data = Some ''ipfs://QmToken7'', QueryResult.isLoading = False,
      QueryResult.isSuccess = True, QueryResult.isError = False, QueryResult.error = None\<rparr>
     (\<lambda>url. Response True 200 (Json (Some ''ipfs://QmCover7''))) True initialImageState
   = \<lparr>ImageState.imageUrl = None, isLoadingImage = True, imageError = None\<rparr>
   \<and> RecordBox
     (Owned \<lparr>CommonProps.contractAddress = ''0x52908400098527886E0F7030069857D2E4169EE7'',
             CommonProps.name = ''Tides'', CommonProps.artist = ''Ana'',
             CommonProps.href = None, className = None\<rparr> (BigIntId 7))
     \<lparr>QueryResult.data = None, QueryResult.isLoading = False,
      QueryResult.isSuccess = False, QueryResult.isError = True,
      QueryResult.error = Some ''execution reverted''\<rparr>
     (imageEffect ''localhost''
        (Owned \<lparr>CommonProps.contractAddress = ''0x52908400098527886E0F7030069857D2E4169EE7'',
                CommonProps.name = ''Tides'', CommonProps.artist = ''Ana'',
                CommonProps.href = None, className = None\<rparr> (BigIntId 7))
        \<lparr>QueryResult.data = None, QueryResult.isLoading = False,
         QueryResult.isSuccess = False, QueryResult.isError = True,
         QueryResult.error = Some ''execution reverted''\<rparr>
        (\<lambda>url. Response True 200 (Json (Some ''ipfs://QmCover7''))) False
        (imageEffect ''localhost''
           (Owned \<lparr>CommonProps.contractAddress = ''0x52908400098527886E0F7030069857D2E4169EE7'',
                   CommonProps.name = ''Tides'', CommonProps.artist = ''Ana'',
                   CommonProps.href = None, className = None\<rparr> (BigIntId 7))
           \<lparr>QueryResult.data = None, QueryResult.isLoading = True,
            QueryResult.isSuccess = False, QueryResult.isError = False,
            QueryResult.error = None\<rparr>
           (\<lambda>url. Response True 200 (Json (Some ''ipfs://QmCover7''))) False
           (imageEffect ''localhost''
              (Owned \<lparr>CommonProps.contractAddress = ''0x52908400098527886E0F7030069857D2E4169EE7'',
                      CommonProps.name = ''Tides'', CommonProps.artist = ''Ana'',
                      CommonProps.href = None, className = None\<rparr> (BigIntId 7))
              \<lparr>QueryResult.data = Some ''ipfs://QmToken7'', QueryResult.isLoading = False,
               QueryResult.isSuccess = True, QueryResult.isError = False,
               QueryResult.error = None\<rparr>
              (\<lambda>url. Response True 200 (Json (Some ''ipfs://QmCover7''))) True
              initialImageState)))
   = Inr \<lparr>linkHref = ''/owner/0x52908400098527886E0F7030069857D2E4169EE7/7'',
          linkClassName = ''block'', imageView = LoadingImage,
          nameText = ''Tides'', RecordBoxView.artistText = ''Ana''\<rparr>"
proof -
  let ?p = "Owned \<lparr>CommonProps.contractAddress = ''0x52908400098527886E0F7030069857D2E4169EE7'',
             CommonProps.name = ''Tides'', CommonProps.artist = ''Ana'',
             CommonProps.href = None, className = None\<rparr> (BigIntId 7)"
  let ?ok = "\<lparr>QueryResult.data = Some ''ipfs://QmToken7'', QueryResult.isLoading = False,
      QueryResult.isSuccess = True, QueryResult.isError = False, QueryResult.error = None\<rparr>"
  let ?f = "\<lambda>url::string. Response True 200 (Json (Some ''ipfs://QmCover7''))"
  have a: "imageEffect ''localhost'' ?p ?ok ?f True initialImageState
      = \<lparr>ImageState.imageUrl = None, isLoadingImage = True, imageError = None\<rparr>"
    by (simp add: imageEffect_def initialImageState_def Let_def)
  have d: "digits_of_nat 7 = ''7''"
    by (simp add: digits_of_nat.simps digitChar_def)
  show ?thesis
    by (simp add: a imageEffect_def initialImageState_def RecordBox_def useRecordImage_def
        readConfig_def toBigIntId_def defaultHref_def commonProps_def tokenIdStr_def
        bigint_toString_def d Let_def)
qed

theorem RecordBox_stuck_on_loading_witness:
  "(case RecordBox
     (Owned \<lparr>CommonProps.contractAddress = ''0x52908400098527886E0F7030069857D2E4169EE7'',
             CommonProps.name = ''Tides'', CommonProps.artist = ''Ana'',
             CommonProps.href = None, className = None\<rparr> (BigIntId 7))
     \<lparr>QueryResult.data = None, QueryResult.isLoading = False,
      QueryResult.isSuccess = False, QueryResult.isError = True,
      QueryResult.error = Some ''execution reverted''\<rparr>
     \<lparr>ImageState.imageUrl = None, isLoadingImage = True, imageError = None\<rparr>
    of Inl e \<Rightarrow> None | Inr view \<Rightarrow> Some (imageView view)) = Some LoadingImage"
  using RecordBox_stuck_on_loading
  by (simp add: imageEffect_def initialImageState_def)

end
